theory Spec2Isabelle
  imports Main
begin

section \<open>Python values used by lokiunimore\<close>

text \<open>
  A Python \<open>str\<close> is a sequence of Unicode code points, \<open>bytes\<close> a sequence of
  octets. String literals of the source are written \<open>lit ''...''\<close>.
\<close>

type_synonym pystr = "nat list"

type_synonym bytes = "char list"

definition lit :: "string \<Rightarrow> pystr" where
  "lit cs = map of_char cs"

text \<open>
  The values that \<open>json.load\<close>, \<open>json.dump\<close> and \<open>ClientResponse.json()\<close> exchange.
  A Python \<open>dict\<close> is an association list in insertion order, read with \<open>map_of\<close>.
  Floats do not occur in the data this program handles and are left out.
\<close>

datatype json =
    JNull
  | JBool bool
  | JInt int
  | JStr pystr
  | JList "json list"
  | JDict "(pystr \<times> json) list"

text \<open>The exceptions the modelled code can raise, as values.\<close>

datatype exn =
    KeyError pystr
  | TypeError
  | AttributeError
  | UnicodeEncodeError
  | JSONDecodeError
  | FileNotFoundError
  | PermissionError
  | FileExistsError
  | CancelledError
  | ClientError
  | ClientResponseError nat
  | RequestError json
  | LoginFailure json
  | PyException pystr
  | BadRequestKeyError
  | OAuthError
  | NotFound

text \<open>Python truthiness (\<open>if current:\<close>, \<open>if not current:\<close>).\<close>

fun truthy :: "json \<Rightarrow> bool" where
  "truthy JNull = False"
| "truthy (JBool b) = b"
| "truthy (JInt i) = (i \<noteq> 0)"
| "truthy (JStr s) = (s \<noteq> [])"
| "truthy (JList xs) = (xs \<noteq> [])"
| "truthy (JDict d) = (d \<noteq> [])"

text \<open>\<open>obj[key]\<close> with a string key: only a \<open>dict\<close> accepts it.\<close>

fun subscript :: "json \<Rightarrow> pystr \<Rightarrow> exn + json" where
  "subscript (JDict d) k = (case map_of d k of None \<Rightarrow> Inl (KeyError k) | Some v \<Rightarrow> Inr v)"
| "subscript _ k = Inl TypeError"

text \<open>\<open>d.get(key)\<close> on a \<open>dict\<close>: \<open>None\<close> when the key is absent.\<close>

definition dict_get :: "(pystr \<times> json) list \<Rightarrow> pystr \<Rightarrow> json" where
  "dict_get d k = (case map_of d k of None \<Rightarrow> JNull | Some v \<Rightarrow> v)"

section \<open>The client state and the file system\<close>

type_synonym path = "pystr list"

text \<open>\<open>pathlib.Path.joinpath\<close> with one relative component.\<close>

definition joinpath :: "path \<Rightarrow> pystr \<Rightarrow> path" where
  "joinpath p name = p @ [name]"

text \<open>
  A room as \<open>nio\<close> keeps it in \<open>client.rooms\<close>: \<open>tags\<close>, \<open>users\<close> and
  \<open>invited_users\<close> are the keys of the respective dicts, \<open>is_group\<close> the value of the
  property of that name.
\<close>

record room =
  room_id :: pystr
  tags :: "pystr list"
  is_group :: bool
  users :: "pystr list"
  invited_users :: "pystr list"

text \<open>The attributes of \<open>ExtendedClient\<close> that the modelled methods read or write.\<close>

record client =
  user :: pystr
  device_id :: pystr
  access_token :: pystr
  store_path :: path
  next_batch :: json
  rooms :: "room list"

text \<open>
  A file holds either a JSON document or text that \<open>json.load\<close> rejects.
  \<open>open\<close> fails on the paths in \<open>denied\<close> (no permission, a directory in the way).
\<close>

datatype file_content = JsonText json | Garbage

record filesystem =
  files :: "path \<rightharpoonup> file_content"
  denied :: "path set"

subsection \<open>\<open>dump_state\<close>, \<open>load_state\<close>\<close>

text \<open>The \<open>data\<close> dict that \<open>dump_state\<close> builds and hands to \<open>json.dump\<close>.\<close>

definition dump_data :: "client \<Rightarrow> (pystr \<times> json) list" where
  "dump_data c = [(lit ''next_batch'', next_batch c)]"

definition dump_state :: "client \<Rightarrow> path \<Rightarrow> filesystem \<Rightarrow> exn + filesystem" where
  "dump_state c p fs =
     (if p \<in> denied fs then Inl PermissionError
      else Inr (fs\<lparr>files := (files fs)(p \<mapsto> JsonText (JDict (dump_data c)))\<rparr>))"

definition load_state :: "client \<Rightarrow> path \<Rightarrow> filesystem \<Rightarrow> exn + client" where
  "load_state c p fs =
     (if p \<in> denied fs then Inl PermissionError
      else case files fs p of
        None \<Rightarrow> Inl FileNotFoundError
      | Some Garbage \<Rightarrow> Inl JSONDecodeError
      | Some (JsonText data) \<Rightarrow>
          (case subscript data (lit ''next_batch'') of
             Inl e \<Rightarrow> Inl e
           | Inr v \<Rightarrow> Inr (c\<lparr>next_batch := v\<rparr>)))"

text \<open>The path both \<open>_dump_state_regularly\<close> and \<open>sync_forever\<close> compute.\<close>

definition state_path :: "client \<Rightarrow> path" where
  "state_path c = joinpath (store_path c) (lit ''state.json'')"

text \<open>
  One period of \<open>_dump_state_regularly\<close>: after the sleep, the body of its
  \<open>while True\<close> loop.
\<close>

definition dump_state_period :: "client \<Rightarrow> filesystem \<Rightarrow> exn + filesystem" where
  "dump_state_period c fs = dump_state c (state_path c) fs"

text \<open>The keys of the JSON object a file holds, if it holds one.\<close>

definition stored_keys :: "filesystem \<Rightarrow> path \<Rightarrow> pystr list option" where
  "stored_keys fs p =
     (case files fs p of
        Some (JsonText (JDict d)) \<Rightarrow> Some (map fst d)
      | _ \<Rightarrow> None)"

text \<open>Example states for closed instances.\<close>

definition example_client :: client where
  "example_client =
     \<lparr>user = lit ''@loki:example.org'', device_id = lit ''LOKI'',
      access_token = lit ''tok'', store_path = [lit ''data''],
      next_batch = JStr (lit ''s72595_4483_1934''), rooms = []\<rparr>"

definition empty_fs :: filesystem where
  "empty_fs = \<lparr>files = Map.empty, denied = {}\<rparr>"

section \<open>\<open>ExtendedClient\<close>: the methods of \<open>lokiunimore.matrix.extensions\<close>\<close>

subsection \<open>\<open>pm_slide\<close>\<close>

text \<open>
  \<open>room_create\<close> of \<open>nio\<close> answers with a \<open>RoomCreateResponse\<close> or a \<open>RoomCreateError\<close>, or
  raises; it is a parameter of \<open>pm_slide\<close>. The requests made are returned with the result.
\<close>

datatype room_create_reply = RoomCreateResponse pystr | RoomCreateError json

record room_create_request =
  invite :: "pystr list"
  is_direct :: bool

text \<open>
  The \<open>for room in self.rooms.values()\<close> loop; \<open>None\<close> when it ends without returning,
  which is when Python runs the \<open>else\<close> branch of the loop.
\<close>

fun pm_slide_loop :: "pystr \<Rightarrow> room list \<Rightarrow> pystr option" where
  "pm_slide_loop user_id [] = None"
| "pm_slide_loop user_id (r # rs) =
     (let is_dm = lit ''m.direct'' \<in> set (tags r);
          is_grp = is_group r;
          has_two_users = (length (users r) + length (invited_users r) = 2);
          contains_user_id = (user_id \<in> set (users r) \<or> user_id \<in> set (invited_users r))
      in if (is_dm \<or> is_grp) \<and> has_two_users \<and> contains_user_id
         then Some (room_id r)
         else pm_slide_loop user_id rs)"

definition pm_slide ::
  "(room_create_request \<Rightarrow> exn + room_create_reply) \<Rightarrow> client \<Rightarrow> pystr \<Rightarrow>
   (exn + pystr) \<times> room_create_request list" where
  "pm_slide room_create c user_id =
     (case pm_slide_loop user_id (rooms c) of
        Some rid \<Rightarrow> (Inr rid, [])
      | None \<Rightarrow>
          (let req = \<lparr>invite = [user_id], is_direct = True\<rparr> in
           case room_create req of
             Inl e \<Rightarrow> (Inl e, [req])
           | Inr (RoomCreateResponse rid) \<Rightarrow> (Inr rid, [req])
           | Inr (RoomCreateError r) \<Rightarrow>
               (Inl (PyException (lit ''Failed to slide into an user's PMs.'')), [req])))"

subsection \<open>HTTP\<close>

text \<open>
  A request as \<open>self.send\<close> gets it, with the arguments of \<open>Api._build_path\<close> kept apart.
  A response has a status and a body; \<open>json_body\<close> is \<open>None\<close> when \<open>.json()\<close> raises.
  The homeserver is the sequence of its replies: the \<open>i\<close>-th request sent gets
  \<open>replies i\<close>, a response or an exception of the transport.
\<close>

datatype http_verb = GET | POST

record request =
  verb :: http_verb
  base_path :: pystr
  path_parts :: "pystr list"
  query :: "(pystr \<times> json) list"
  headers :: "(pystr \<times> pystr) list"
  body :: "json option"

record response =
  status :: nat
  json_body :: "json option"

type_synonym reply = "exn + response"

record homeserver =
  replies :: "nat \<Rightarrow> reply"
  sent :: "request list"

definition send :: "request \<Rightarrow> homeserver \<Rightarrow> reply \<times> homeserver" where
  "send req hs = (replies hs (length (sent hs)), hs\<lparr>sent := sent hs @ [req]\<rparr>)"

text \<open>\<open>aiohttp\<close> raises from status 400 on.\<close>

definition raise_for_status :: "response \<Rightarrow> exn + unit" where
  "raise_for_status r =
     (if 400 \<le> status r then Inl (ClientResponseError (status r)) else Inr ())"

subsection \<open>\<open>str.encode("utf8")\<close> and \<open>hmac\<close>\<close>

text \<open>
  UTF-8 of one code point; surrogates (and numbers that are no code point) raise
  \<open>UnicodeEncodeError\<close>.
\<close>

definition utf8_char :: "nat \<Rightarrow> exn + bytes" where
  "utf8_char cp =
     (if cp < 0x80 then Inr [char_of cp]
      else if cp < 0x800 then
        Inr [char_of (0xC0 + cp div 0x40), char_of (0x80 + cp mod 0x40)]
      else if 0xD800 \<le> cp \<and> cp < 0xE000 then Inl UnicodeEncodeError
      else if cp < 0x10000 then
        Inr [char_of (0xE0 + cp div 0x1000), char_of (0x80 + cp div 0x40 mod 0x40),
             char_of (0x80 + cp mod 0x40)]
      else if cp < 0x110000 then
        Inr [char_of (0xF0 + cp div 0x40000), char_of (0x80 + cp div 0x1000 mod 0x40),
             char_of (0x80 + cp div 0x40 mod 0x40), char_of (0x80 + cp mod 0x40)]
      else Inl UnicodeEncodeError)"

fun encode_utf8 :: "pystr \<Rightarrow> exn + bytes" where
  "encode_utf8 [] = Inr []"
| "encode_utf8 (cp # s) =
     (case utf8_char cp of
        Inl e \<Rightarrow> Inl e
      | Inr b \<Rightarrow> (case encode_utf8 s of Inl e \<Rightarrow> Inl e | Inr bs \<Rightarrow> Inr (b @ bs)))"

text \<open>\<open>x.encode("utf8")\<close> for a value read from JSON: only a \<open>str\<close> has the method.\<close>

fun encode_attr :: "json \<Rightarrow> exn + bytes" where
  "encode_attr (JStr s) = encode_utf8 s"
| "encode_attr _ = Inl AttributeError"

text \<open>
  An \<open>hmac\<close> object holds its key and the bytes it was updated with. What the digest
  computes is the standard library's business: \<open>digestmod key msg\<close> is the hex digest of
  the HMAC of \<open>msg\<close> under \<open>key\<close> with the chosen hash, a parameter of the model.
\<close>

record hmac_object =
  hmac_key :: bytes
  hmac_msg :: bytes

definition hmac_new :: "bytes \<Rightarrow> bytes \<Rightarrow> hmac_object" where
  "hmac_new key msg = \<lparr>hmac_key = key, hmac_msg = msg\<rparr>"

definition hmac_update :: "hmac_object \<Rightarrow> bytes \<Rightarrow> hmac_object" where
  "hmac_update h m = h\<lparr>hmac_msg := hmac_msg h @ m\<rparr>"

definition hexdigest :: "(bytes \<Rightarrow> bytes \<Rightarrow> pystr) \<Rightarrow> hmac_object \<Rightarrow> pystr" where
  "hexdigest digestmod h = digestmod (hmac_key h) (hmac_msg h)"


subsection \<open>HMAC-SHA1\<close>

text \<open>
  Not code of this repository: SHA-1 (FIPS 180-4) and HMAC (RFC 2104) as \<open>hashlib\<close> and
  \<open>hmac\<close> compute them, on 32-bit words kept as integers below \<open>2 ^ 32\<close>. They serve to
  put a digest in the place of the parameter and to compute reference values; the
  theorems about the repository's code hold for every digest function.
\<close>

definition add32 :: "int \<Rightarrow> int \<Rightarrow> int" where
  "add32 x y = (x + y) mod 4294967296"

definition rotl32 :: "nat \<Rightarrow> int \<Rightarrow> int" where
  "rotl32 n x = (x * 2 ^ n) mod 4294967296 + x div 2 ^ (32 - n)"

definition not32 :: "int \<Rightarrow> int" where
  "not32 x = 4294967295 - x"

definition be32 :: "bytes \<Rightarrow> int" where
  "be32 bs = foldl (\<lambda>acc b. acc * 256 + of_char b) 0 bs"

definition be_bytes :: "nat \<Rightarrow> int \<Rightarrow> bytes" where
  "be_bytes n x = map (\<lambda>i. char_of (x div 256 ^ (n - 1 - i))) [0..<n]"

definition sha1_pad :: "bytes \<Rightarrow> bytes" where
  "sha1_pad msg =
     msg @ [CHR 0x80] @ replicate ((119 - length msg mod 64) mod 64) (CHR 0x00) @
     be_bytes 8 (8 * int (length msg))"

fun sha1_blocks :: "nat \<Rightarrow> bytes \<Rightarrow> bytes list" where
  "sha1_blocks 0 bs = []"
| "sha1_blocks (Suc n) bs = take 64 bs # sha1_blocks n (drop 64 bs)"

fun sha1_words :: "nat \<Rightarrow> bytes \<Rightarrow> int list" where
  "sha1_words 0 bs = []"
| "sha1_words (Suc n) bs = be32 (take 4 bs) # sha1_words n (drop 4 bs)"

text \<open>The message schedule, latest word first: \<open>n\<close> words are added to the sixteen.\<close>

fun sha1_schedule :: "nat \<Rightarrow> int list \<Rightarrow> int list" where
  "sha1_schedule 0 ws = ws"
| "sha1_schedule (Suc n) ws =
     sha1_schedule n (rotl32 1 (xor (xor (xor (ws ! 2) (ws ! 7)) (ws ! 13)) (ws ! 15)) # ws)"

definition sha1_f :: "nat \<Rightarrow> int \<Rightarrow> int \<Rightarrow> int \<Rightarrow> int" where
  "sha1_f t b c d =
     (if t < 20 then or (and b c) (and (not32 b) d)
      else if t < 40 then xor (xor b c) d
      else if t < 60 then or (or (and b c) (and b d)) (and c d)
      else xor (xor b c) d)"

definition sha1_k :: "nat \<Rightarrow> int" where
  "sha1_k t =
     (if t < 20 then 0x5A827999
      else if t < 40 then 0x6ED9EBA1
      else if t < 60 then 0x8F1BBCDC
      else 0xCA62C1D6)"

fun sha1_rounds :: "nat \<Rightarrow> int list \<Rightarrow> int list \<Rightarrow> int list" where
  "sha1_rounds t (w # ws) [a, b, c, d, e] =
     sha1_rounds (Suc t) ws
       [add32 (add32 (add32 (add32 (rotl32 5 a) (sha1_f t b c d)) e) (sha1_k t)) w,
        a, rotl32 30 b, c, d]"
| "sha1_rounds t ws h = h"

definition sha1_compress :: "int list \<Rightarrow> bytes \<Rightarrow> int list" where
  "sha1_compress h block =
     map2 add32 h (sha1_rounds 0 (rev (sha1_schedule 64 (rev (sha1_words 16 block)))) h)"

definition hashlib_sha1 :: "bytes \<Rightarrow> bytes" where
  "hashlib_sha1 msg =
     concat (map (be_bytes 4)
       (foldl sha1_compress [0x67452301, 0xEFCDAB89, 0x98BADCFE, 0x10325476, 0xC3D2E1F0]
          (sha1_blocks (length (sha1_pad msg) div 64) (sha1_pad msg))))"

definition xor_bytes :: "int \<Rightarrow> bytes \<Rightarrow> bytes" where
  "xor_bytes p bs = map (\<lambda>b. char_of (xor (of_char b) p)) bs"

definition hmac_sha1 :: "bytes \<Rightarrow> bytes \<Rightarrow> bytes" where
  "hmac_sha1 key msg =
     (let k0 = (if 64 < length key then hashlib_sha1 key else key);
          k = k0 @ replicate (64 - length k0) (CHR 0x00)
      in hashlib_sha1 (xor_bytes 0x5C k @ hashlib_sha1 (xor_bytes 0x36 k @ msg)))"

definition hex_digit :: "nat \<Rightarrow> nat" where
  "hex_digit n = (if n < 10 then 48 + n else 87 + n)"

definition hexlify :: "bytes \<Rightarrow> pystr" where
  "hexlify bs =
     concat (map (\<lambda>b. [hex_digit (of_char b div 16), hex_digit (of_char b mod 16)]) bs)"

definition hmac_sha1_hexdigest :: "bytes \<Rightarrow> bytes \<Rightarrow> pystr" where
  "hmac_sha1_hexdigest key msg = hexlify (hmac_sha1 key msg)"

subsection \<open>\<open>register_with_shared_secret\<close>, \<open>login_with_shared_secret\<close>\<close>

definition register_path :: "pystr \<times> pystr list" where
  "register_path = (lit ''/_synapse/admin'', [lit ''v1'', lit ''register''])"

definition register_with_shared_secret ::
  "(bytes \<Rightarrow> bytes \<Rightarrow> pystr) \<Rightarrow> pystr \<Rightarrow> pystr \<Rightarrow> pystr \<Rightarrow> pystr \<Rightarrow> homeserver \<Rightarrow>
   (exn + unit) \<times> homeserver" where
  "register_with_shared_secret sha1 shared_secret username displayname password hs =
     (let path = register_path in
      case send \<lparr>verb = GET, base_path = fst path, path_parts = snd path, query = [],
                 headers = [], body = None\<rparr> hs of
        (Inl e, hs1) \<Rightarrow> (Inl e, hs1)
      | (Inr nonce_response, hs1) \<Rightarrow>
     (case raise_for_status nonce_response of Inl e \<Rightarrow> (Inl e, hs1) | Inr u \<Rightarrow>
     (case json_body nonce_response of None \<Rightarrow> (Inl JSONDecodeError, hs1) | Some nonce_json \<Rightarrow>
     (case subscript nonce_json (lit ''nonce'') of Inl e \<Rightarrow> (Inl e, hs1) | Inr nonce \<Rightarrow>
     (case encode_utf8 shared_secret of Inl e \<Rightarrow> (Inl e, hs1) | Inr key \<Rightarrow>
     (case encode_attr nonce of Inl e \<Rightarrow> (Inl e, hs1) | Inr nonce_bytes \<Rightarrow>
     (case encode_utf8 username of Inl e \<Rightarrow> (Inl e, hs1) | Inr username_bytes \<Rightarrow>
     (case encode_utf8 password of Inl e \<Rightarrow> (Inl e, hs1) | Inr password_bytes \<Rightarrow>
       (let mac0 = hmac_new key [];
            mac1 = hmac_update mac0 nonce_bytes;
            mac2 = hmac_update mac1 [CHR 0x00];
            mac3 = hmac_update mac2 username_bytes;
            mac4 = hmac_update mac3 [CHR 0x00];
            mac5 = hmac_update mac4 password_bytes;
            mac6 = hmac_update mac5 [CHR 0x00];
            mac = hmac_update mac6 ''notadmin''
        in case send \<lparr>verb = POST, base_path = fst path, path_parts = snd path, query = [],
                      headers = [],
                      body = Some (JDict
                        [(lit ''nonce'', nonce),
                         (lit ''username'', JStr username),
                         (lit ''displayname'', JStr displayname),
                         (lit ''password'', JStr password),
                         (lit ''admin'', JBool False),
                         (lit ''mac'', JStr (hexdigest sha1 mac))])\<rparr> hs1 of
             (Inl e, hs2) \<Rightarrow> (Inl e, hs2)
           | (Inr registration, hs2) \<Rightarrow>
               (case raise_for_status registration of
                  Inl e \<Rightarrow> (Inl e, hs2)
                | Inr u \<Rightarrow> (Inr (), hs2)))))))))))"

text \<open>
  \<open>login_raw\<close> of \<open>nio\<close> is a parameter. On a \<open>LoginError\<close> the source runs
  \<open>breakpoint()\<close> and \<open>raise response\<close>: an exception is raised, whatever its class.
\<close>

datatype login_reply = LoginResponse json | LoginError json

definition login_with_shared_secret ::
  "(bytes \<Rightarrow> bytes \<Rightarrow> pystr) \<Rightarrow> (json \<Rightarrow> exn + login_reply) \<Rightarrow> client \<Rightarrow> pystr \<Rightarrow>
   exn + unit" where
  "login_with_shared_secret sha512 login_raw c shared_secret =
     (case encode_utf8 shared_secret of Inl e \<Rightarrow> Inl e | Inr key \<Rightarrow>
     (case encode_utf8 (user c) of Inl e \<Rightarrow> Inl e | Inr msg \<Rightarrow>
       (let token = hexdigest sha512 (hmac_new key msg) in
        case login_raw (JDict
               [(lit ''type'', JStr (lit ''com.devture.shared_secret_auth'')),
                (lit ''identifier'', JDict
                   [(lit ''type'', JStr (lit ''m.id.user'')),
                    (lit ''user'', JStr (user c))]),
                (lit ''token'', JStr token),
                (lit ''initial_device_display_name'', JStr (device_id c))]) of
          Inl e \<Rightarrow> Inl e
        | Inr (LoginError r) \<Rightarrow> Inl (LoginFailure r)
        | Inr (LoginResponse r) \<Rightarrow> Inr ())))"

subsection \<open>\<open>_send\<close>\<close>

text \<open>
  The override of \<open>_send\<close>: its argument is what \<open>super()._send(...)\<close> gave, an exception,
  an \<open>ErrorResponse\<close> or anything else.
\<close>

datatype 'a nio_result = ErrorResponse json | Result 'a

definition ExtendedClient_send :: "exn + 'a nio_result \<Rightarrow> exn + 'a nio_result" where
  "ExtendedClient_send super_send =
     (case super_send of
        Inl e \<Rightarrow> Inl e
      | Inr (ErrorResponse r) \<Rightarrow> Inl (RequestError r)
      | Inr result \<Rightarrow> Inr result)"

subsection \<open>\<open>room_hierarchy\<close>\<close>

text \<open>\<open>str\<close> of an \<open>int\<close> and of a \<open>bool\<close>, and \<open>str.lower\<close> on ASCII letters.\<close>

fun str_nat :: "nat \<Rightarrow> pystr" where
  "str_nat n = (if n < 10 then [48 + n] else str_nat (n div 10) @ [48 + n mod 10])"

definition str_int :: "int \<Rightarrow> pystr" where
  "str_int i = (if i < 0 then 45 # str_nat (nat (- i)) else str_nat (nat i))"

definition str_bool :: "bool \<Rightarrow> pystr" where
  "str_bool b = (if b then lit ''True'' else lit ''False'')"

definition lower :: "pystr \<Rightarrow> pystr" where
  "lower s = map (\<lambda>cp. if 65 \<le> cp \<and> cp \<le> 90 then cp + 32 else cp) s"

text \<open>
  \<open>[*rooms, *x]\<close> iterates \<open>x\<close>: the elements of a list, the characters of a \<open>str\<close>, the keys
  of a \<open>dict\<close>; \<open>None\<close>, a \<open>bool\<close> and an \<open>int\<close> raise \<open>TypeError\<close>.
\<close>

fun unpack :: "json \<Rightarrow> exn + json list" where
  "unpack (JList xs) = Inr xs"
| "unpack (JStr s) = Inr (map (\<lambda>cp. JStr [cp]) s)"
| "unpack (JDict d) = Inr (map (\<lambda>kv. JStr (fst kv)) d)"
| "unpack _ = Inl TypeError"

text \<open>\<open>result.get(key)\<close>, reached only when \<open>result[...]\<close> has succeeded, so on a \<open>dict\<close>.\<close>

fun json_get :: "json \<Rightarrow> pystr \<Rightarrow> json" where
  "json_get (JDict d) k = dict_get d k"
| "json_get _ k = JNull"

text \<open>The request of one iteration: \<open>from\<close> is set only \<open>if current\<close>.\<close>

definition hierarchy_request :: "client \<Rightarrow> pystr \<Rightarrow> int \<Rightarrow> bool \<Rightarrow> json \<Rightarrow> request" where
  "hierarchy_request c rid max_depth suggested_only current =
     \<lparr>verb = GET, base_path = lit ''/_matrix/client/v1'',
      path_parts = [lit ''rooms'', rid, lit ''hierarchy''],
      query =
        [(lit ''max_depth'', JStr (str_int max_depth)),
         (lit ''suggested_only'', JStr (lower (str_bool suggested_only)))] @
        (if truthy current then [(lit ''from'', current)] else []),
      headers = [(lit ''Authorization'', lit ''Bearer '' @ access_token c)],
      body = None\<rparr>"

text \<open>
  The \<open>while True\<close> loop, which may run forever: not returning is \<open>None\<close>. No status
  is looked at.
\<close>

partial_function (option) hierarchy_loop ::
  "client \<Rightarrow> pystr \<Rightarrow> int \<Rightarrow> bool \<Rightarrow> json \<Rightarrow> json list \<Rightarrow> homeserver \<Rightarrow>
   ((exn + json list) \<times> homeserver) option" where
  "hierarchy_loop c rid max_depth suggested_only current rs hs =
     (case send (hierarchy_request c rid max_depth suggested_only current) hs of
        (Inl e, hs1) \<Rightarrow> Some (Inl e, hs1)
      | (Inr result, hs1) \<Rightarrow>
     (case json_body result of None \<Rightarrow> Some (Inl JSONDecodeError, hs1) | Some result_json \<Rightarrow>
     (case subscript result_json (lit ''rooms'') of Inl e \<Rightarrow> Some (Inl e, hs1) | Inr page \<Rightarrow>
     (case unpack page of Inl e \<Rightarrow> Some (Inl e, hs1) | Inr items \<Rightarrow>
       (let rs' = rs @ items;
            current' = json_get result_json (lit ''next_batch'')
        in if \<not> truthy current' then Some (Inr rs', hs1)
           else hierarchy_loop c rid max_depth suggested_only current' rs' hs1)))))"

definition room_hierarchy ::
  "client \<Rightarrow> pystr \<Rightarrow> int \<Rightarrow> bool \<Rightarrow> homeserver \<Rightarrow> ((exn + json list) \<times> homeserver) option" where
  "room_hierarchy c rid max_depth suggested_only hs =
     hierarchy_loop c rid max_depth suggested_only JNull [] hs"

subsection \<open>\<open>sync_forever\<close>\<close>

text \<open>
  The inherited \<open>sync_forever\<close> and the dump task run interleaved on one event loop. A
  run is the list of its events (a sync response moved the cursor; the sleep of the dump
  task elapsed) and the way the inherited method ended: it returned, or it raised
  (\<open>CancelledError\<close> on cancellation). The effects on the file system and on the task are
  logged in order.
\<close>

datatype sync_event = Synced json | PeriodElapsed

datatype sync_end = Returned | Raised exn

datatype task_state = NotCreated | Running | Crashed exn | CancelRequested

datatype effect =
    Mkdir path
  | LoadState path
  | CreateTask
  | DumpState path json
  | CancelTask

record sync_run =
  sync_client :: client
  sync_fs :: filesystem
  dump_task :: task_state
  effects :: "effect list"

text \<open>
  \<open>store_path.mkdir(parents=True, exist_ok=True)\<close>: fails where a file is in the way or
  the path is denied.
\<close>

definition mkdir :: "path \<Rightarrow> filesystem \<Rightarrow> exn + unit" where
  "mkdir p fs =
     (if p \<in> denied fs then Inl PermissionError
      else if p \<in> dom (files fs) then Inl FileExistsError
      else Inr ())"

text \<open>
  One event. A dump that raises ends the dump task (the exception stays in the task);
  a task that has ended dumps no more.
\<close>

definition sync_step :: "path \<Rightarrow> sync_run \<Rightarrow> sync_event \<Rightarrow> sync_run" where
  "sync_step sp r ev =
     (case ev of
        Synced cursor \<Rightarrow> r\<lparr>sync_client := (sync_client r)\<lparr>next_batch := cursor\<rparr>\<rparr>
      | PeriodElapsed \<Rightarrow>
          (if dump_task r = Running then
             (case dump_state (sync_client r) sp (sync_fs r) of
                Inl e \<Rightarrow>
                  r\<lparr>dump_task := Crashed e,
                    effects := effects r @ [DumpState sp (next_batch (sync_client r))]\<rparr>
              | Inr fs' \<Rightarrow>
                  r\<lparr>sync_fs := fs',
                    effects := effects r @ [DumpState sp (next_batch (sync_client r))]\<rparr>)
           else r))"

text \<open>
  The \<open>finally\<close> block: cancel the task, then \<open>dump_state\<close>. An exception of the dump
  replaces the way the sync ended.
\<close>

definition sync_finally :: "path \<Rightarrow> sync_end \<Rightarrow> sync_run \<Rightarrow> (exn + unit) \<times> sync_run" where
  "sync_finally sp ending r =
     (let r1 = r\<lparr>dump_task := CancelRequested, effects := effects r @ [CancelTask]\<rparr>;
          r2 = r1\<lparr>effects := effects r1 @ [DumpState sp (next_batch (sync_client r1))]\<rparr>
      in case dump_state (sync_client r1) sp (sync_fs r1) of
           Inl e \<Rightarrow> (Inl e, r2)
         | Inr fs' \<Rightarrow>
             (case ending of Returned \<Rightarrow> Inr () | Raised e \<Rightarrow> Inl e, r2\<lparr>sync_fs := fs'\<rparr>))"

definition sync_forever ::
  "client \<Rightarrow> filesystem \<Rightarrow> sync_event list \<Rightarrow> sync_end \<Rightarrow> (exn + unit) \<times> sync_run" where
  "sync_forever c fs events ending =
     (let sp = joinpath (store_path c) (lit ''state.json'');
          r0 = \<lparr>sync_client = c, sync_fs = fs, dump_task = NotCreated,
                effects = [Mkdir (store_path c)]\<rparr>
      in case mkdir (store_path c) fs of
           Inl e \<Rightarrow> (Inl e, r0)
         | Inr u \<Rightarrow>
            (let r1 = r0\<lparr>effects := effects r0 @ [LoadState sp]\<rparr> in
             case (case load_state c sp fs of
                     Inl FileNotFoundError \<Rightarrow> Inr c
                   | Inl e \<Rightarrow> Inl e
                   | Inr c' \<Rightarrow> Inr c') of
               Inl e \<Rightarrow> (Inl e, r1)
             | Inr c1 \<Rightarrow>
                (let r2 = r1\<lparr>sync_client := c1, dump_task := Running,
                             effects := effects r1 @ [CreateTask]\<rparr>;
                     r3 = foldl (sync_step sp) r2 events
                 in sync_finally sp ending r3)))"

section \<open>The database and the web handlers\<close>

text \<open>The tables of \<open>lokiunimore.sql\<close>, rows in table order.\<close>

record account =
  email :: pystr
  first_name :: pystr
  last_name :: pystr

record matrix_user =
  matrix_id :: pystr
  token :: pystr
  account_email :: "pystr option"

record database =
  accounts :: "account list"
  matrix_users :: "matrix_user list"

text \<open>
  What \<open>oauth.google\<close> answers in a request: \<open>authorize_access_token()\<close> gives the token
  or raises, \<open>parse_id_token(token, nonce)\<close> gives the Google account or raises.
\<close>

record google_account =
  email_verified :: bool
  google_email :: pystr
  given_name :: pystr
  family_name :: pystr

record oauth_google =
  authorize_access_token :: "exn + json"
  parse_id_token :: "json \<Rightarrow> json \<Rightarrow> exn + google_account"

text \<open>
  The responses of the handlers. \<open>ErrorPage\<close> is \<open>error.html\<close> with the \<open>details\<close> it is
  rendered with and the status; \<open>Abort\<close> is an exception leaving the handler (a 404 from
  \<open>first_or_404\<close>, or any other); \<open>ReturnedNone\<close> is the handler falling off its end.
\<close>

datatype error_details =
    MissingQueryParameters
  | OAuthWentWrong
  | EmailNotVerified
  | NotInOrganization

datatype flask_response =
    ErrorPage error_details nat
  | RenderMatrix matrix_user pystr
  | RedirectProfile json
  | RedirectGoogle pystr
  | Abort exn
  | ReturnedNone

text \<open>
  \<open>re.match(r"(.+)@studenti[.]unimore[.]it", email)\<close>: anchored at the start only; \<open>.\<close>
  matches any character but a newline. \<open>match_rest\<close> is the match after the first character.
\<close>

fun match_rest :: "pystr \<Rightarrow> bool" where
  "match_rest [] = False"
| "match_rest (cp # s) =
     (take 20 (cp # s) = lit ''@studenti.unimore.it'' \<or> (cp \<noteq> 10 \<and> match_rest s))"

definition re_match_unimore :: "pystr \<Rightarrow> bool" where
  "re_match_unimore s = (case s of [] \<Rightarrow> False | cp # s' \<Rightarrow> cp \<noteq> 10 \<and> match_rest s')"

text \<open>\<open>query(MatrixUser).filter_by(token=t).first()\<close>.\<close>

definition first_by_token :: "json \<Rightarrow> database \<Rightarrow> matrix_user option" where
  "first_by_token t db = find (\<lambda>u. JStr (token u) = t) (matrix_users db)"

text \<open>
  \<open>db.session.merge(Account(...))\<close>: the row with this primary key takes the given
  attributes, or the row is added.
\<close>

definition merge_account :: "account \<Rightarrow> database \<Rightarrow> database" where
  "merge_account a db =
     (if email a \<in> set (map email (accounts db))
      then db\<lparr>accounts := map (\<lambda>x. if email x = email a then a else x) (accounts db)\<rparr>
      else db\<lparr>accounts := accounts db @ [a]\<rparr>)"

text \<open>\<open>matrix_user.account = local_account\<close>, written back by primary key.\<close>

definition set_account :: "matrix_user \<Rightarrow> account \<Rightarrow> database \<Rightarrow> database" where
  "set_account u a db =
     db\<lparr>matrix_users :=
          map (\<lambda>x. if matrix_id x = matrix_id u then x\<lparr>account_email := Some (email a)\<rparr> else x)
            (matrix_users db)\<rparr>"

text \<open>\<open>flask.session[key] = value\<close>.\<close>

fun dict_set :: "pystr \<Rightarrow> json \<Rightarrow> (pystr \<times> json) list \<Rightarrow> (pystr \<times> json) list" where
  "dict_set k v [] = [(k, v)]"
| "dict_set k v (kv # d) = (if fst kv = k then (k, v) # d else kv # dict_set k v d)"

definition page_matrix_profile :: "pystr \<Rightarrow> database \<Rightarrow> flask_response" where
  "page_matrix_profile t db =
     (case first_by_token (JStr t) db of
        None \<Rightarrow> Abort NotFound
      | Some u \<Rightarrow> RenderMatrix u t)"

definition page_matrix_link ::
  "pystr \<Rightarrow> database \<Rightarrow> (pystr \<times> json) list \<Rightarrow> flask_response \<times> (pystr \<times> json) list" where
  "page_matrix_link t db session =
     (case first_by_token (JStr t) db of
        None \<Rightarrow> (Abort NotFound, session)
      | Some u \<Rightarrow>
          (RedirectGoogle (lit ''page_oauth_authorize''),
           dict_set (lit ''matrix_token'') (JStr t) session))"

text \<open>
  The handler returns the response and the committed database: what the session holds
  is written only by \<open>db.session.commit()\<close>, which the last branch alone reaches.
\<close>

definition page_oauth_authorize ::
  "oauth_google \<Rightarrow> (pystr \<times> json) list \<Rightarrow> database \<Rightarrow> flask_response \<times> database" where
  "page_oauth_authorize oauth session db =
     (case authorize_access_token oauth of
        Inl BadRequestKeyError \<Rightarrow> (ErrorPage MissingQueryParameters 200, db)
      | Inl OAuthError \<Rightarrow> (ErrorPage OAuthWentWrong 200, db)
      | Inl e \<Rightarrow> (Abort e, db)
      | Inr tok \<Rightarrow>
         (case subscript tok (lit ''userinfo'') of
            Inl e \<Rightarrow> (Abort e, db)
          | Inr userinfo \<Rightarrow>
         (case subscript userinfo (lit ''nonce'') of
            Inl e \<Rightarrow> (Abort e, db)
          | Inr nonce \<Rightarrow>
         (case parse_id_token oauth tok nonce of
            Inl e \<Rightarrow> (Abort e, db)
          | Inr google \<Rightarrow>
             if \<not> email_verified google then (ErrorPage EmailNotVerified 403, db)
             else if \<not> re_match_unimore (google_email google)
               then (ErrorPage NotInOrganization 403, db)
             else
               (let local_account =
                      \<lparr>email = google_email google, first_name = given_name google,
                       last_name = family_name google\<rparr>;
                    pending = merge_account local_account db;
                    matrix_token = dict_get session (lit ''matrix_token'')
                in if truthy matrix_token then
                     (case first_by_token matrix_token pending of
                        None \<Rightarrow> (Abort NotFound, db)
                      | Some u \<Rightarrow>
                          (RedirectProfile matrix_token, set_account u local_account pending))
                   else (ReturnedNone, db))))))"

text \<open>
  The invariants of the schema in \<open>lokiunimore.sql\<close>: \<open>id\<close> is the primary key of
  \<open>matrix_users\<close>, \<open>email\<close> the primary key of \<open>accounts\<close>, and \<open>account_email\<close> a nullable
  foreign key to \<open>accounts.email\<close>.
\<close>

definition db_ok :: "database \<Rightarrow> bool" where
  "db_ok db \<longleftrightarrow>
     distinct (map matrix_id (matrix_users db)) \<and>
     distinct (map email (accounts db)) \<and>
     list_all (\<lambda>u. case account_email u of
                      None \<Rightarrow> True
                    | Some e \<Rightarrow> e \<in> set (map email (accounts db)))
       (matrix_users db)"

text \<open>The cursor the client holds after a run of sync events.\<close>

definition latest_cursor :: "json \<Rightarrow> sync_event list \<Rightarrow> json" where
  "latest_cursor start events =
     foldl (\<lambda>cur ev. case ev of Synced x \<Rightarrow> x | PeriodElapsed \<Rightarrow> cur) start events"

text \<open>Example homeservers for closed instances.\<close>

definition example_pages :: homeserver where
  "example_pages =
     \<lparr>replies = (\<lambda>i. if i = 0
         then Inr \<lparr>status = 200, json_body = Some (JDict
                [(lit ''rooms'', JList [JStr (lit ''!a:example.org'')]),
                 (lit ''next_batch'', JStr (lit ''t1''))])\<rparr>
         else Inr \<lparr>status = 200, json_body = Some (JDict
                [(lit ''rooms'', JList [JStr (lit ''!b:example.org'')])])\<rparr>),
      sent = []\<rparr>"

definition example_error_page :: homeserver where
  "example_error_page =
     \<lparr>replies = (\<lambda>i. Inr \<lparr>status = 500, json_body = Some (JDict [(lit ''rooms'', JList [])])\<rparr>),
      sent = []\<rparr>"

definition example_nonce_server :: homeserver where
  "example_nonce_server =
     \<lparr>replies = (\<lambda>i. Inr \<lparr>status = 200,
                           json_body = Some (JDict [(lit ''nonce'', JStr (lit ''abc123''))])\<rparr>),
      sent = []\<rparr>"

definition stored_fs :: filesystem where
  "stored_fs =
     \<lparr>files = [state_path example_client \<mapsto>
                 JsonText (JDict [(lit ''next_batch'', JStr (lit ''s1''))])],
      denied = {}\<rparr>"

text \<open>Example inputs of the web handlers for closed instances.\<close>

definition example_google :: google_account where
  "example_google =
     \<lparr>email_verified = True, google_email = lit ''123456@studenti.unimore.it'',
      given_name = lit ''Ada'', family_name = lit ''Rossi''\<rparr>"

definition example_token :: json where
  "example_token = JDict [(lit ''userinfo'', JDict [(lit ''nonce'', JStr (lit ''n0''))])]"

definition oauth_returning :: "google_account \<Rightarrow> oauth_google" where
  "oauth_returning g =
     \<lparr>authorize_access_token = Inr example_token,
      parse_id_token = (\<lambda>tok nonce. Inr g)\<rparr>"

definition oauth_failing :: "exn \<Rightarrow> oauth_google" where
  "oauth_failing e =
     \<lparr>authorize_access_token = Inl e,
      parse_id_token = (\<lambda>tok nonce. Inl e)\<rparr>"

definition example_user :: matrix_user where
  "example_user =
     \<lparr>matrix_id = lit ''@ada:example.org'', token = lit ''tok-ada'', account_email = None\<rparr>"

definition example_db :: database where
  "example_db =
     \<lparr>accounts = [],
      matrix_users =
        [example_user,
         \<lparr>matrix_id = lit ''@ada-phone:example.org'', token = lit ''tok-phone'',
          account_email = None\<rparr>]\<rparr>"

definition linked_db :: database where
  "linked_db =
     \<lparr>accounts =
        [\<lparr>email = lit ''123456@studenti.unimore.it'', first_name = lit ''Ada'',
          last_name = lit ''Rossi''\<rparr>],
      matrix_users =
        [\<lparr>matrix_id = lit ''@ada:example.org'', token = lit ''tok-ada'',
          account_email = Some (lit ''123456@studenti.unimore.it'')\<rparr>,
         \<lparr>matrix_id = lit ''@ada-phone:example.org'', token = lit ''tok-phone'',
          account_email = Some (lit ''123456@studenti.unimore.it'')\<rparr>]\<rparr>"

section \<open>Basic facts\<close>

lemma lit_eq_iff [simp]: "lit a = lit b \<longleftrightarrow> a = b"
  by (simp add: lit_def inj_on_def)

lemma lit_Nil_iff [simp]: "lit s = [] \<longleftrightarrow> s = []"
  by (simp add: lit_def)

lemma send_eq:
  "send req hs = (replies hs (length (sent hs)), hs\<lparr>sent := sent hs @ [req]\<rparr>)"
  by (simp add: send_def)

lemma encode_utf8_ascii:
  "encode_utf8 (lit ''abc123'') = Inr ''abc123''"
  "encode_utf8 (lit ''secret'') = Inr ''secret''"
  "encode_utf8 (lit ''alice'') = Inr ''alice''"
  "encode_utf8 (lit ''pass'' @ [233]) = Inr (''pass'' @ [CHR 0xC3, CHR 0xA9])"
  by code_simp+

lemma dump_state_ok:
  "p \<notin> denied fs \<Longrightarrow>
   dump_state c p fs = Inr (fs\<lparr>files := (files fs)(p \<mapsto> JsonText (JDict (dump_data c)))\<rparr>)"
  by (simp add: dump_state_def)

lemma dump_state_Inr_iff:
  "dump_state c p fs = Inr fs' \<longleftrightarrow>
   p \<notin> denied fs \<and> fs' = fs\<lparr>files := (files fs)(p \<mapsto> JsonText (JDict (dump_data c)))\<rparr>"
  by (auto simp: dump_state_def)

section \<open>Checkpointing\<close>

text \<open>
  C3 (as stated, refuted): the claim says the JSON object written by \<open>dump_state\<close>
  contains two keys. For the example client the object written on a timer period has
  one key, not two.
\<close>

theorem dump_state_two_keys_counterexample:
  "dump_state_period example_client empty_fs =
     Inr \<lparr>files = [state_path example_client \<mapsto>
            JsonText (JDict [(lit ''next_batch'', JStr (lit ''s72595_4483_1934''))])],
          denied = {}\<rparr> \<and>
   map_option length
     (stored_keys
        \<lparr>files = [state_path example_client \<mapsto>
            JsonText (JDict [(lit ''next_batch'', JStr (lit ''s72595_4483_1934''))])],
         denied = {}\<rparr>
        (state_path example_client)) \<noteq> Some 2"
  by (simp add: dump_state_period_def dump_state_def empty_fs_def stored_keys_def
      dump_data_def example_client_def)

text \<open>
  C3 (amended): on each period the timer task persists exactly one field of client
  state, the sync cursor: for every client state and every file system in which the
  state file can be opened, the period's \<open>dump_state\<close> succeeds and leaves in the state
  file a JSON object whose only key is \<open>next_batch\<close>, bound to the client's cursor.
\<close>

theorem dump_state_period_one_key:
  assumes "state_path c \<notin> denied fs"
  shows "\<exists>fs'. dump_state_period c fs = Inr fs' \<and>
           stored_keys fs' (state_path c) = Some [lit ''next_batch''] \<and>
           files fs' (state_path c) =
             Some (JsonText (JDict [(lit ''next_batch'', next_batch c)]))"
  using assms
  by (simp add: dump_state_period_def dump_state_def stored_keys_def dump_data_def)

theorem dump_state_period_one_key_witness:
  "state_path example_client \<notin> denied empty_fs \<and>
   (\<exists>fs'. dump_state_period example_client empty_fs = Inr fs' \<and>
      stored_keys fs' (state_path example_client) = Some [lit ''next_batch''] \<and>
      files fs' (state_path example_client) =
        Some (JsonText (JDict [(lit ''next_batch'', next_batch example_client)])))"
proof -
  have h: "state_path example_client \<notin> denied empty_fs"
    by (simp add: empty_fs_def)
  show ?thesis
    using h dump_state_period_one_key [OF h] by simp
qed

text \<open>
  C9: checkpointing round-trips. Whatever the cursor of the dumping client is, when
  \<open>dump_state\<close> to a path succeeds, \<open>load_state\<close> from the same path succeeds on the
  resulting file system and sets \<open>next_batch\<close> of the loading client to the dumped
  value, leaving its other attributes alone.
\<close>

theorem dump_load_roundtrip:
  assumes "dump_state c p fs = Inr fs'"
  shows "load_state c' p fs' = Inr (c'\<lparr>next_batch := next_batch c\<rparr>)"
proof -
  from assms have ok: "p \<notin> denied fs"
    and fs': "fs' = fs\<lparr>files := (files fs)(p \<mapsto> JsonText (JDict (dump_data c)))\<rparr>"
    by (simp_all add: dump_state_Inr_iff)
  from ok fs' show ?thesis
    by (simp add: load_state_def dump_data_def)
qed

theorem dump_load_roundtrip_witness:
  "dump_state example_client [lit ''state.json''] empty_fs =
     Inr \<lparr>files = [[lit ''state.json''] \<mapsto>
            JsonText (JDict [(lit ''next_batch'', JStr (lit ''s72595_4483_1934''))])],
          denied = {}\<rparr> \<and>
   load_state (example_client\<lparr>next_batch := JNull\<rparr>) [lit ''state.json'']
     \<lparr>files = [[lit ''state.json''] \<mapsto>
            JsonText (JDict [(lit ''next_batch'', JStr (lit ''s72595_4483_1934''))])],
      denied = {}\<rparr> =
     Inr ((example_client\<lparr>next_batch := JNull\<rparr>)\<lparr>next_batch := next_batch example_client\<rparr>)"
proof -
  have h: "dump_state example_client [lit ''state.json''] empty_fs =
     Inr \<lparr>files = [[lit ''state.json''] \<mapsto>
            JsonText (JDict [(lit ''next_batch'', JStr (lit ''s72595_4483_1934''))])],
          denied = {}\<rparr>"
    by (simp add: dump_state_def empty_fs_def dump_data_def example_client_def)
  show ?thesis
    using h dump_load_roundtrip [OF h, of "example_client\<lparr>next_batch := JNull\<rparr>"] by simp
qed

section \<open>Direct-message rooms\<close>

lemma pm_slide_loop_find:
  "pm_slide_loop user_id rs =
   map_option room_id
     (find (\<lambda>r. (lit ''m.direct'' \<in> set (tags r) \<or> is_group r) \<and>
                length (users r) + length (invited_users r) = 2 \<and>
                (user_id \<in> set (users r) \<or> user_id \<in> set (invited_users r))) rs)"
  by (induction rs) (auto simp: Let_def)

text \<open>
  C6: \<open>pm_slide\<close> walks \<open>client.rooms\<close> in iteration order. If some room is tagged
  \<open>m.direct\<close> or is a group, has exactly two members counting joined and invited ones, and
  has \<open>user_id\<close> among them, the room id of the first such room is returned and no room is
  created. If there is none, exactly one creation request is made, for a direct room that
  invites \<open>user_id\<close>; its room id is returned when the homeserver answers with a
  \<open>RoomCreateResponse\<close>, and an exception is raised otherwise.
\<close>

theorem pm_slide_first_or_create:
  "(case find (\<lambda>r. (lit ''m.direct'' \<in> set (tags r) \<or> is_group r) \<and>
                length (users r) + length (invited_users r) = 2 \<and>
                (user_id \<in> set (users r) \<or> user_id \<in> set (invited_users r))) (rooms c) of
      Some r \<Rightarrow> pm_slide room_create c user_id = (Inr (room_id r), [])
    | None \<Rightarrow>
        snd (pm_slide room_create c user_id) = [\<lparr>invite = [user_id], is_direct = True\<rparr>] \<and>
        (case room_create \<lparr>invite = [user_id], is_direct = True\<rparr> of
           Inr (RoomCreateResponse rid) \<Rightarrow> fst (pm_slide room_create c user_id) = Inr rid
         | Inr (RoomCreateError r) \<Rightarrow>
             fst (pm_slide room_create c user_id) =
               Inl (PyException (lit ''Failed to slide into an user's PMs.''))
         | Inl e \<Rightarrow> fst (pm_slide room_create c user_id) = Inl e))"
  by (simp add: pm_slide_def pm_slide_loop_find Let_def
      split: option.split sum.split room_create_reply.split)

section \<open>Shared-secret registration\<close>

text \<open>
  C1: whatever the shared secret, nonce, username and password are (as long as they can
  be encoded as UTF-8, without which nothing is posted), when the GET succeeds with a
  nonce, \<open>register_with_shared_secret\<close> sends exactly two requests: the GET, and a POST
  whose \<open>nonce\<close> is the one the GET returned and whose \<open>mac\<close> is the hex digest, keyed
  with the encoded shared secret, of the bytes nonce, NUL, username, NUL, password, NUL,
  \<open>notadmin\<close>. The digest function \<open>sha1\<close> stands for HMAC-SHA1 of the standard library;
  the closed instance below takes \<open>hmac_sha1_hexdigest\<close> for it and arrives at the value
  Python's \<open>hmac\<close> gives for the same key and bytes.
\<close>

theorem register_mac:
  assumes "replies hs (length (sent hs)) = Inr nonce_response"
    and "status nonce_response < 400"
    and "json_body nonce_response = Some (JDict d)"
    and "map_of d (lit ''nonce'') = Some (JStr nonce)"
    and "encode_utf8 shared_secret = Inr key"
    and "encode_utf8 nonce = Inr nonce_bytes"
    and "encode_utf8 username = Inr username_bytes"
    and "encode_utf8 password = Inr password_bytes"
  shows "sent (snd (register_with_shared_secret sha1 shared_secret username displayname
                      password hs)) =
         sent hs @
         [\<lparr>verb = GET, base_path = lit ''/_synapse/admin'',
           path_parts = [lit ''v1'', lit ''register''], query = [], headers = [],
           body = None\<rparr>,
          \<lparr>verb = POST, base_path = lit ''/_synapse/admin'',
           path_parts = [lit ''v1'', lit ''register''], query = [], headers = [],
           body = Some (JDict
             [(lit ''nonce'', JStr nonce),
              (lit ''username'', JStr username),
              (lit ''displayname'', JStr displayname),
              (lit ''password'', JStr password),
              (lit ''admin'', JBool False),
              (lit ''mac'', JStr (sha1 key
                 (nonce_bytes @ [CHR 0x00] @ username_bytes @ [CHR 0x00] @
                  password_bytes @ [CHR 0x00] @ ''notadmin'')))])\<rparr>]"
  using assms
  by (simp add: register_with_shared_secret_def register_path_def send_eq
      raise_for_status_def hmac_new_def hmac_update_def hexdigest_def Let_def
      split: sum.split prod.split)

lemma hmac_sha1_rfc2202:
  "hmac_sha1_hexdigest ''Jefe'' ''what do ya want for nothing?'' =
   lit ''effcdf6ae5eb2fa2d27416d5f184df9c259a7c79''"
  by code_simp

lemma hmac_sha1_reference:
  "hmac_sha1_hexdigest ''secret''
     (''abc123'' @ [CHR 0x00] @ ''alice'' @ [CHR 0x00] @ (''pass'' @ [CHR 0xC3, CHR 0xA9]) @
      [CHR 0x00] @ ''notadmin'') =
   lit ''a36c349fdc781cf7728caa3e559b4ede57b5541e''"
  by code_simp

theorem register_mac_witness:
  "replies example_nonce_server (length (sent example_nonce_server)) =
     Inr \<lparr>status = 200, json_body = Some (JDict [(lit ''nonce'', JStr (lit ''abc123''))])\<rparr> \<and>
   encode_utf8 (lit ''secret'') = Inr ''secret'' \<and>
   encode_utf8 (lit ''abc123'') = Inr ''abc123'' \<and>
   encode_utf8 (lit ''alice'') = Inr ''alice'' \<and>
   encode_utf8 (lit ''pass'' @ [233]) = Inr (''pass'' @ [CHR 0xC3, CHR 0xA9]) \<and>
   sent (snd (register_with_shared_secret hmac_sha1_hexdigest (lit ''secret'') (lit ''alice'')
                (lit ''Alice'') (lit ''pass'' @ [233]) example_nonce_server)) =
     [\<lparr>verb = GET, base_path = lit ''/_synapse/admin'',
       path_parts = [lit ''v1'', lit ''register''], query = [], headers = [],
       body = None\<rparr>,
      \<lparr>verb = POST, base_path = lit ''/_synapse/admin'',
       path_parts = [lit ''v1'', lit ''register''], query = [], headers = [],
       body = Some (JDict
         [(lit ''nonce'', JStr (lit ''abc123'')),
          (lit ''username'', JStr (lit ''alice'')),
          (lit ''displayname'', JStr (lit ''Alice'')),
          (lit ''password'', JStr (lit ''pass'' @ [233])),
          (lit ''admin'', JBool False),
          (lit ''mac'', JStr (lit ''a36c349fdc781cf7728caa3e559b4ede57b5541e''))])\<rparr>]"
proof -
  have h1: "replies example_nonce_server (length (sent example_nonce_server)) =
     Inr \<lparr>status = 200, json_body = Some (JDict [(lit ''nonce'', JStr (lit ''abc123''))])\<rparr>"
    by (simp add: example_nonce_server_def)
  have h2: "status \<lparr>status = 200,
      json_body = Some (JDict [(lit ''nonce'', JStr (lit ''abc123''))])\<rparr> < 400"
    by simp
  have h3: "json_body \<lparr>status = 200,
      json_body = Some (JDict [(lit ''nonce'', JStr (lit ''abc123''))])\<rparr> =
      Some (JDict [(lit ''nonce'', JStr (lit ''abc123''))])"
    by simp
  have h4: "map_of [(lit ''nonce'', JStr (lit ''abc123''))] (lit ''nonce'') =
      Some (JStr (lit ''abc123''))"
    by simp
  note h5 = encode_utf8_ascii(2) and h6 = encode_utf8_ascii(1)
    and h7 = encode_utf8_ascii(3) and h8 = encode_utf8_ascii(4)
  show ?thesis
    using h1 h5 h6 h7 h8
      register_mac [OF h1 h2 h3 h4 h5 h6 h7 h8, of hmac_sha1_hexdigest "lit ''Alice''"]
    by (simp add: example_nonce_server_def hmac_sha1_reference [simplified])
qed

section \<open>Room hierarchy\<close>

lemma hierarchy_loop_last_page:
  assumes "replies hs (length (sent hs)) = Inr \<lparr>status = st, json_body = Some (JDict pg)\<rparr>"
    and "map_of pg (lit ''rooms'') = Some (JList xs)"
    and "\<not> truthy (dict_get pg (lit ''next_batch''))"
  shows "hierarchy_loop c rid md so cur rs hs =
         Some (Inr (rs @ xs),
               hs\<lparr>sent := sent hs @ [hierarchy_request c rid md so cur]\<rparr>)"
  using assms by (subst hierarchy_loop.simps) (simp add: send_eq Let_def)

lemma hierarchy_loop_next_page:
  assumes "replies hs (length (sent hs)) = Inr \<lparr>status = st, json_body = Some (JDict pg)\<rparr>"
    and "map_of pg (lit ''rooms'') = Some (JList xs)"
    and "truthy (dict_get pg (lit ''next_batch''))"
  shows "hierarchy_loop c rid md so cur rs hs =
         hierarchy_loop c rid md so (dict_get pg (lit ''next_batch'')) (rs @ xs)
           (hs\<lparr>sent := sent hs @ [hierarchy_request c rid md so cur]\<rparr>)"
  using assms by (subst hierarchy_loop.simps) (simp add: send_eq Let_def)

lemma hierarchy_loop_run:
  assumes "\<And>i. i \<le> n \<Longrightarrow>
             replies hs (length (sent hs) + i) =
               Inr \<lparr>status = st i, json_body = Some (JDict (page i))\<rparr>"
    and "\<And>i. i \<le> n \<Longrightarrow> map_of (page i) (lit ''rooms'') = Some (JList (rooms_of i))"
    and "\<And>i. i < n \<Longrightarrow> truthy (dict_get (page i) (lit ''next_batch''))"
    and "\<not> truthy (dict_get (page n) (lit ''next_batch''))"
  shows "hierarchy_loop c rid md so cur rs hs =
         Some (Inr (rs @ concat (map rooms_of [0..<Suc n])),
               hs\<lparr>sent := sent hs @
                  map (\<lambda>i. hierarchy_request c rid md so
                         (if i = 0 then cur else dict_get (page (i - 1)) (lit ''next_batch'')))
                    [0..<Suc n]\<rparr>)"
  using assms
proof (induction n arbitrary: hs cur rs st page rooms_of)
  case 0
  from 0(1) [of 0] 0(2) [of 0] 0(4) show ?case
    by (simp add: hierarchy_loop_last_page)
next
  case (Suc n)
  let ?hs1 = "hs\<lparr>sent := sent hs @ [hierarchy_request c rid md so cur]\<rparr>"
  let ?cur1 = "dict_get (page 0) (lit ''next_batch'')"
  have step: "hierarchy_loop c rid md so cur rs hs =
              hierarchy_loop c rid md so ?cur1 (rs @ rooms_of 0) ?hs1"
    using Suc.prems(1) [of 0] Suc.prems(2) [of 0] Suc.prems(3) [of 0]
    by (simp add: hierarchy_loop_next_page)
  have rest: "hierarchy_loop c rid md so ?cur1 (rs @ rooms_of 0) ?hs1 =
         Some (Inr ((rs @ rooms_of 0) @ concat (map (\<lambda>i. rooms_of (Suc i)) [0..<Suc n])),
               ?hs1\<lparr>sent := sent ?hs1 @
                  map (\<lambda>i. hierarchy_request c rid md so
                         (if i = 0 then ?cur1
                          else dict_get (page (Suc (i - 1))) (lit ''next_batch'')))
                    [0..<Suc n]\<rparr>)"
  proof (rule Suc.IH [where st = "\<lambda>i. st (Suc i)"])
    fix i assume "i \<le> n"
    then show "replies ?hs1 (length (sent ?hs1) + i) =
               Inr \<lparr>status = st (Suc i), json_body = Some (JDict (page (Suc i)))\<rparr>"
      using Suc.prems(1) [of "Suc i"] by simp
  next
    fix i assume "i \<le> n"
    then show "map_of (page (Suc i)) (lit ''rooms'') = Some (JList (rooms_of (Suc i)))"
      using Suc.prems(2) [of "Suc i"] by simp
  next
    fix i assume "i < n"
    then show "truthy (dict_get (page (Suc i)) (lit ''next_batch''))"
      using Suc.prems(3) [of "Suc i"] by simp
  next
    show "\<not> truthy (dict_get (page (Suc n)) (lit ''next_batch''))"
      using Suc.prems(4) .
  qed
  have rooms_eq: "concat (map rooms_of [0..<Suc (Suc n)]) =
                  rooms_of 0 @ concat (map (\<lambda>i. rooms_of (Suc i)) [0..<Suc n])"
    by (simp only: map_upt_Suc concat.simps)
  have reqs_eq:
    "map (\<lambda>i. hierarchy_request c rid md so
             (if i = 0 then cur else dict_get (page (i - 1)) (lit ''next_batch'')))
       [0..<Suc (Suc n)] =
     hierarchy_request c rid md so cur #
     map (\<lambda>i. hierarchy_request c rid md so
             (if i = 0 then ?cur1 else dict_get (page (Suc (i - 1))) (lit ''next_batch'')))
       [0..<Suc n]"
    by (subst map_upt_Suc) (auto simp del: upt_Suc)
  show ?case
    unfolding step rest rooms_eq reqs_eq by simp
qed

text \<open>
  C8: let page \<open>n\<close> be the first response of the homeserver without a \<open>next_batch\<close> value
  (the key is absent, or its value is \<open>None\<close> or empty: what \<open>if not current\<close> tests), every
  response up to it being a JSON object with a \<open>rooms\<close> list. Then \<open>room_hierarchy\<close>
  terminates, returns the rooms of pages \<open>0\<close> to \<open>n\<close> concatenated in order, and has sent
  \<open>n + 1\<close> requests: the first without \<open>from\<close>, each later one with the \<open>next_batch\<close> of the
  page before it as \<open>from\<close>. The status codes \<open>st i\<close> of the responses are arbitrary.
\<close>

theorem room_hierarchy_pages:
  assumes "sent hs = []"
    and "\<And>i. i \<le> n \<Longrightarrow>
           replies hs i = Inr \<lparr>status = st i, json_body = Some (JDict (page i))\<rparr>"
    and "\<And>i. i \<le> n \<Longrightarrow> map_of (page i) (lit ''rooms'') = Some (JList (rooms_of i))"
    and "\<And>i. i < n \<Longrightarrow> truthy (dict_get (page i) (lit ''next_batch''))"
    and "\<not> truthy (dict_get (page n) (lit ''next_batch''))"
  shows "room_hierarchy c rid max_depth suggested_only hs =
         Some (Inr (concat (map rooms_of [0..<Suc n])),
               hs\<lparr>sent :=
                  map (\<lambda>i. \<lparr>verb = GET, base_path = lit ''/_matrix/client/v1'',
                            path_parts = [lit ''rooms'', rid, lit ''hierarchy''],
                            query =
                              [(lit ''max_depth'', JStr (str_int max_depth)),
                               (lit ''suggested_only'',
                                JStr (lower (str_bool suggested_only)))] @
                              (if i = 0 then []
                               else [(lit ''from'',
                                      dict_get (page (i - 1)) (lit ''next_batch''))]),
                            headers = [(lit ''Authorization'',
                                        lit ''Bearer '' @ access_token c)],
                            body = None\<rparr>)
                    [0..<Suc n]\<rparr>)"
proof -
  have run: "hierarchy_loop c rid max_depth suggested_only JNull [] hs =
         Some (Inr ([] @ concat (map rooms_of [0..<Suc n])),
               hs\<lparr>sent := sent hs @
                  map (\<lambda>i. hierarchy_request c rid max_depth suggested_only
                         (if i = 0 then JNull
                          else dict_get (page (i - 1)) (lit ''next_batch'')))
                    [0..<Suc n]\<rparr>)"
    by (rule hierarchy_loop_run [where st = st]) (simp_all add: assms)
  have req: "\<And>i. i \<in> set [0..<Suc n] \<Longrightarrow>
      hierarchy_request c rid max_depth suggested_only
        (if i = 0 then JNull else dict_get (page (i - 1)) (lit ''next_batch'')) =
      \<lparr>verb = GET, base_path = lit ''/_matrix/client/v1'',
       path_parts = [lit ''rooms'', rid, lit ''hierarchy''],
       query =
         [(lit ''max_depth'', JStr (str_int max_depth)),
          (lit ''suggested_only'', JStr (lower (str_bool suggested_only)))] @
         (if i = 0 then []
          else [(lit ''from'', dict_get (page (i - 1)) (lit ''next_batch''))]),
       headers = [(lit ''Authorization'', lit ''Bearer '' @ access_token c)],
       body = None\<rparr>"
  proof -
    fix i assume "i \<in> set [0..<Suc n]"
    then have "i = 0 \<or> (0 < i \<and> i - 1 < n)" by auto
    then show "hierarchy_request c rid max_depth suggested_only
        (if i = 0 then JNull else dict_get (page (i - 1)) (lit ''next_batch'')) =
      \<lparr>verb = GET, base_path = lit ''/_matrix/client/v1'',
       path_parts = [lit ''rooms'', rid, lit ''hierarchy''],
       query =
         [(lit ''max_depth'', JStr (str_int max_depth)),
          (lit ''suggested_only'', JStr (lower (str_bool suggested_only)))] @
         (if i = 0 then []
          else [(lit ''from'', dict_get (page (i - 1)) (lit ''next_batch''))]),
       headers = [(lit ''Authorization'', lit ''Bearer '' @ access_token c)],
       body = None\<rparr>"
      using assms(4) [of "i - 1"] by (auto simp: hierarchy_request_def)
  qed
  show ?thesis
    unfolding room_hierarchy_def run
    using assms(1) req by (simp cong: map_cong del: upt_Suc)
qed

theorem room_hierarchy_pages_witness:
  "room_hierarchy example_client (lit ''!space:example.org'') 1 False example_pages =
   Some (Inr [JStr (lit ''!a:example.org''), JStr (lit ''!b:example.org'')],
         example_pages\<lparr>sent :=
           [\<lparr>verb = GET, base_path = lit ''/_matrix/client/v1'',
             path_parts = [lit ''rooms'', lit ''!space:example.org'', lit ''hierarchy''],
             query = [(lit ''max_depth'', JStr (lit ''1'')),
                      (lit ''suggested_only'', JStr (lit ''false''))],
             headers = [(lit ''Authorization'', lit ''Bearer tok'')],
             body = None\<rparr>,
            \<lparr>verb = GET, base_path = lit ''/_matrix/client/v1'',
             path_parts = [lit ''rooms'', lit ''!space:example.org'', lit ''hierarchy''],
             query = [(lit ''max_depth'', JStr (lit ''1'')),
                      (lit ''suggested_only'', JStr (lit ''false'')),
                      (lit ''from'', JStr (lit ''t1''))],
             headers = [(lit ''Authorization'', lit ''Bearer tok'')],
             body = None\<rparr>]\<rparr>)"
proof -
  let ?page = "\<lambda>i::nat. if i = 0
      then [(lit ''rooms'', JList [JStr (lit ''!a:example.org'')]),
            (lit ''next_batch'', JStr (lit ''t1''))]
      else [(lit ''rooms'', JList [JStr (lit ''!b:example.org'')])]"
  let ?rooms = "\<lambda>i::nat. if i = 0 then [JStr (lit ''!a:example.org'')]
      else [JStr (lit ''!b:example.org'')]"
  have "room_hierarchy example_client (lit ''!space:example.org'') 1 False example_pages =
         Some (Inr (concat (map ?rooms [0..<Suc 1])),
               example_pages\<lparr>sent :=
                  map (\<lambda>i. \<lparr>verb = GET, base_path = lit ''/_matrix/client/v1'',
                            path_parts = [lit ''rooms'', lit ''!space:example.org'',
                                          lit ''hierarchy''],
                            query =
                              [(lit ''max_depth'', JStr (str_int 1)),
                               (lit ''suggested_only'', JStr (lower (str_bool False)))] @
                              (if i = 0 then []
                               else [(lit ''from'',
                                      dict_get (?page (i - 1)) (lit ''next_batch''))]),
                            headers = [(lit ''Authorization'',
                                        lit ''Bearer '' @ access_token example_client)],
                            body = None\<rparr>)
                    [0..<Suc 1]\<rparr>)"
    by (rule room_hierarchy_pages [where st = "\<lambda>i. 200" and page = ?page and rooms_of = ?rooms])
       (simp_all add: example_pages_def dict_get_def)
  then show ?thesis
    by (simp add: example_client_def dict_get_def str_int_def str_bool_def lower_def lit_def)
qed

section \<open>Raising on error responses\<close>

text \<open>
  What the operations other than \<open>room_hierarchy\<close> do with an error response:
  registration raises \<open>ClientResponseError\<close> on a status from 400 on, of the GET or of the
  POST, and returns otherwise; the login raises when \<open>login_raw\<close> raises or answers with a
  \<open>LoginError\<close>; the overridden \<open>_send\<close> raises \<open>RequestError\<close> when the inherited \<open>_send\<close>
  gives it an \<open>ErrorResponse\<close> and hands every other result on.
\<close>

lemma register_raises_on_nonce_status:
  assumes "replies hs (length (sent hs)) = Inr nonce_response"
    and "400 \<le> status nonce_response"
  shows "fst (register_with_shared_secret sha1 shared_secret username displayname password hs) =
         Inl (ClientResponseError (status nonce_response))"
  using assms
  by (simp add: register_with_shared_secret_def send_eq raise_for_status_def Let_def)

lemma register_result:
  assumes "replies hs (length (sent hs)) = Inr nonce_response"
    and "status nonce_response < 400"
    and "json_body nonce_response = Some (JDict d)"
    and "map_of d (lit ''nonce'') = Some (JStr nonce)"
    and "encode_utf8 shared_secret = Inr key"
    and "encode_utf8 nonce = Inr nonce_bytes"
    and "encode_utf8 username = Inr username_bytes"
    and "encode_utf8 password = Inr password_bytes"
    and "replies hs (Suc (length (sent hs))) = Inr registration"
  shows "fst (register_with_shared_secret sha1 shared_secret username displayname password hs) =
         (if 400 \<le> status registration then Inl (ClientResponseError (status registration))
          else Inr ())"
  using assms
  by (simp add: register_with_shared_secret_def send_eq raise_for_status_def Let_def)

lemma login_with_shared_secret_result:
  assumes "encode_utf8 shared_secret = Inr key" and "encode_utf8 (user c) = Inr msg"
  shows "login_with_shared_secret sha512 login_raw c shared_secret =
         (case login_raw (JDict
               [(lit ''type'', JStr (lit ''com.devture.shared_secret_auth'')),
                (lit ''identifier'', JDict
                   [(lit ''type'', JStr (lit ''m.id.user'')),
                    (lit ''user'', JStr (user c))]),
                (lit ''token'', JStr (sha512 key msg)),
                (lit ''initial_device_display_name'', JStr (device_id c))]) of
            Inl e \<Rightarrow> Inl e
          | Inr (LoginError r) \<Rightarrow> Inl (LoginFailure r)
          | Inr (LoginResponse r) \<Rightarrow> Inr ())"
  using assms
  by (simp add: login_with_shared_secret_def hexdigest_def hmac_new_def Let_def)

lemma ExtendedClient_send_result:
  "ExtendedClient_send (Inr (ErrorResponse r)) = Inl (RequestError r)"
  "ExtendedClient_send (Inr (Result x)) = Inr (Result x)"
  "ExtendedClient_send (Inl e) = Inl e"
  by (simp_all add: ExtendedClient_send_def)

text \<open>
  C2 (the code at the failing input): the homeserver answers every request with status
  500 and the body \<open>{"rooms": []}\<close>. \<open>room_hierarchy\<close> never looks at the status and returns
  the empty list normally, where \<open>register_with_shared_secret\<close>, which calls
  \<open>raise_for_status\<close>, raises \<open>ClientResponseError\<close> on the same answer.
\<close>

theorem room_hierarchy_returns_on_error_status:
  "room_hierarchy example_client (lit ''!space:example.org'') 1 False example_error_page =
   Some (Inr [],
         example_error_page\<lparr>sent :=
           [hierarchy_request example_client (lit ''!space:example.org'') 1 False JNull]\<rparr>) \<and>
   fst (register_with_shared_secret sha1 (lit ''secret'') (lit ''alice'') (lit ''Alice'')
          (lit ''password'') example_error_page) = Inl (ClientResponseError 500)"
proof -
  have "hierarchy_loop example_client (lit ''!space:example.org'') 1 False JNull []
          example_error_page =
        Some (Inr ([] @ []),
          example_error_page\<lparr>sent := sent example_error_page @
            [hierarchy_request example_client (lit ''!space:example.org'') 1 False JNull]\<rparr>)"
    by (rule hierarchy_loop_last_page [where st = 500 and pg = "[(lit ''rooms'', JList [])]"])
       (simp_all add: example_error_page_def dict_get_def)
  moreover have "fst (register_with_shared_secret sha1 (lit ''secret'') (lit ''alice'')
          (lit ''Alice'') (lit ''password'') example_error_page) = Inl (ClientResponseError 500)"
    by (simp add: register_with_shared_secret_def send_eq raise_for_status_def
        example_error_page_def Let_def)
  ultimately show ?thesis
    by (simp add: room_hierarchy_def example_error_page_def)
qed

section \<open>Syncing\<close>

lemma sync_step_inv:
  assumes "sp \<notin> denied (sync_fs r)" and "dump_task r = Running"
  shows "sp \<notin> denied (sync_fs (sync_step sp r ev))"
    and "dump_task (sync_step sp r ev) = Running"
    and "next_batch (sync_client (sync_step sp r ev)) =
         (case ev of Synced x \<Rightarrow> x | PeriodElapsed \<Rightarrow> next_batch (sync_client r))"
    and "\<exists>pre. effects (sync_step sp r ev) = effects r @ pre \<and> CancelTask \<notin> set pre"
  using assms
  by (auto simp: sync_step_def dump_state_def split: sync_event.split)

lemma sync_steps_inv:
  assumes "sp \<notin> denied (sync_fs r)" and "dump_task r = Running"
  shows "sp \<notin> denied (sync_fs (foldl (sync_step sp) r events)) \<and>
         dump_task (foldl (sync_step sp) r events) = Running \<and>
         next_batch (sync_client (foldl (sync_step sp) r events)) =
           latest_cursor (next_batch (sync_client r)) events \<and>
         (\<exists>pre. effects (foldl (sync_step sp) r events) = effects r @ pre \<and>
                CancelTask \<notin> set pre)"
  using assms
proof (induction events arbitrary: r)
  case Nil
  then show ?case by (simp add: latest_cursor_def)
next
  case (Cons ev events)
  let ?r1 = "sync_step sp r ev"
  from sync_step_inv [OF Cons.prems, of ev]
  have a: "sp \<notin> denied (sync_fs ?r1)" and b: "dump_task ?r1 = Running"
    and c: "next_batch (sync_client ?r1) =
         (case ev of Synced x \<Rightarrow> x | PeriodElapsed \<Rightarrow> next_batch (sync_client r))"
    and d: "\<exists>pre. effects ?r1 = effects r @ pre \<and> CancelTask \<notin> set pre"
    by simp_all
  from d obtain pre1 where pre1: "effects ?r1 = effects r @ pre1" "CancelTask \<notin> set pre1"
    by blast
  from Cons.IH [OF a b] obtain pre2 where
    ih: "sp \<notin> denied (sync_fs (foldl (sync_step sp) ?r1 events))"
      "dump_task (foldl (sync_step sp) ?r1 events) = Running"
      "next_batch (sync_client (foldl (sync_step sp) ?r1 events)) =
         latest_cursor (next_batch (sync_client ?r1)) events"
      "effects (foldl (sync_step sp) ?r1 events) = effects ?r1 @ pre2"
      "CancelTask \<notin> set pre2"
    by blast
  have "effects (foldl (sync_step sp) r (ev # events)) = effects r @ (pre1 @ pre2) \<and>
        CancelTask \<notin> set (pre1 @ pre2)"
    using ih(4,5) pre1 by simp
  then have "\<exists>pre. effects (foldl (sync_step sp) r (ev # events)) = effects r @ pre \<and>
        CancelTask \<notin> set pre"
    by blast
  moreover have "latest_cursor (next_batch (sync_client ?r1)) events =
        latest_cursor (next_batch (sync_client r)) (ev # events)"
    using c by (simp add: latest_cursor_def)
  ultimately show ?case using ih(1,2,3) by simp
qed

lemma sync_finally_ok:
  assumes "sp \<notin> denied (sync_fs r)"
  shows "sync_finally sp ending r =
         (case ending of Returned \<Rightarrow> Inr () | Raised e \<Rightarrow> Inl e,
          r\<lparr>dump_task := CancelRequested,
            effects := effects r @ [CancelTask, DumpState sp (next_batch (sync_client r))],
            sync_fs := (sync_fs r)\<lparr>files := (files (sync_fs r))
               (sp \<mapsto> JsonText (JDict [(lit ''next_batch'', next_batch (sync_client r))]))\<rparr>\<rparr>)"
  using assms by (simp add: sync_finally_def dump_state_def dump_data_def Let_def)

lemma startup_load:
  assumes "state_path c \<notin> denied fs"
    and "files fs (state_path c) = None \<and> start = next_batch c \<or>
         (\<exists>d. files fs (state_path c) = Some (JsonText (JDict d)) \<and>
              map_of d (lit ''next_batch'') = Some start)"
  shows "(case load_state c (state_path c) fs of
            Inl FileNotFoundError \<Rightarrow> Inr c
          | Inl e \<Rightarrow> Inl e
          | Inr c' \<Rightarrow> Inr c') = Inr (c\<lparr>next_batch := start\<rparr>)"
  using assms by (auto simp: load_state_def)

text \<open>
  C10: the store directory can be created and the state file opened; the state file is
  either missing (syncing starts from the cursor the client has) or holds a JSON object
  with \<open>next_batch\<close> (syncing starts from the stored cursor). Then for every run of the
  underlying sync, whether it returns or raises (cancellation is \<open>Raised CancelledError\<close>),
  \<open>sync_forever\<close> ends the same way, the dump task has been cancelled, the last two effects
  are the cancellation and one \<open>dump_state\<close> of the latest cursor to the state file, no
  earlier effect is a cancellation, and the state file holds the latest cursor.
\<close>

theorem sync_forever_final_dump:
  assumes "store_path c \<notin> denied fs" and "store_path c \<notin> dom (files fs)"
    and "state_path c \<notin> denied fs"
    and "files fs (state_path c) = None \<and> start = next_batch c \<or>
         (\<exists>d. files fs (state_path c) = Some (JsonText (JDict d)) \<and>
              map_of d (lit ''next_batch'') = Some start)"
  shows "\<exists>r pre.
           sync_forever c fs events ending =
             (case ending of Returned \<Rightarrow> Inr () | Raised e \<Rightarrow> Inl e, r) \<and>
           dump_task r = CancelRequested \<and>
           effects r = pre @ [CancelTask,
                              DumpState (state_path c) (latest_cursor start events)] \<and>
           CancelTask \<notin> set pre \<and>
           next_batch (sync_client r) = latest_cursor start events \<and>
           files (sync_fs r) (state_path c) =
             Some (JsonText (JDict [(lit ''next_batch'', latest_cursor start events)]))"
proof -
  let ?sp = "state_path c"
  let ?r2 = "\<lparr>sync_client = c\<lparr>next_batch := start\<rparr>, sync_fs = fs, dump_task = Running,
              effects = [Mkdir (store_path c), LoadState ?sp, CreateTask]\<rparr>"
  let ?r3 = "foldl (sync_step ?sp) ?r2 events"
  have mk: "mkdir (store_path c) fs = Inr ()"
    using assms(1,2) by (simp add: mkdir_def)
  have ld: "(case load_state c ?sp fs of
            Inl FileNotFoundError \<Rightarrow> Inr c
          | Inl e \<Rightarrow> Inl e
          | Inr c' \<Rightarrow> Inr c') = Inr (c\<lparr>next_batch := start\<rparr>)"
    by (rule startup_load [OF assms(3,4)])
  have run: "sync_forever c fs events ending = sync_finally ?sp ending ?r3"
    using mk ld unfolding sync_forever_def state_path_def [symmetric] Let_def
    by simp
  have inv: "?sp \<notin> denied (sync_fs ?r3) \<and> dump_task ?r3 = Running \<and>
         next_batch (sync_client ?r3) = latest_cursor (next_batch (sync_client ?r2)) events \<and>
         (\<exists>pre. effects ?r3 = effects ?r2 @ pre \<and> CancelTask \<notin> set pre)"
    by (rule sync_steps_inv) (simp_all add: assms(3))
  then obtain pre where pre: "effects ?r3 = effects ?r2 @ pre" "CancelTask \<notin> set pre"
    by blast
  from inv have nd: "?sp \<notin> denied (sync_fs ?r3)"
    and cur: "next_batch (sync_client ?r3) = latest_cursor start events"
    by simp_all
  let ?r4 = "?r3\<lparr>dump_task := CancelRequested,
            effects := effects ?r3 @ [CancelTask, DumpState ?sp (next_batch (sync_client ?r3))],
            sync_fs := (sync_fs ?r3)\<lparr>files := (files (sync_fs ?r3))
               (?sp \<mapsto> JsonText (JDict [(lit ''next_batch'',
                   next_batch (sync_client ?r3))]))\<rparr>\<rparr>"
  have fin: "sync_forever c fs events ending =
             (case ending of Returned \<Rightarrow> Inr () | Raised e \<Rightarrow> Inl e, ?r4)"
    unfolding run by (rule sync_finally_ok [OF nd])
  have "dump_task ?r4 = CancelRequested \<and>
        effects ?r4 = (effects ?r2 @ pre) @
          [CancelTask, DumpState ?sp (latest_cursor start events)] \<and>
        CancelTask \<notin> set (effects ?r2 @ pre) \<and>
        next_batch (sync_client ?r4) = latest_cursor start events \<and>
        files (sync_fs ?r4) ?sp =
          Some (JsonText (JDict [(lit ''next_batch'', latest_cursor start events)]))"
    using pre cur by simp
  with fin show ?thesis by blast
qed

theorem sync_forever_final_dump_witness:
  "store_path example_client \<notin> denied empty_fs \<and>
   store_path example_client \<notin> dom (files empty_fs) \<and>
   state_path example_client \<notin> denied empty_fs \<and>
   files empty_fs (state_path example_client) = None \<and>
   (\<exists>r pre.
      sync_forever example_client empty_fs
        [Synced (JStr (lit ''s2'')), PeriodElapsed, Synced (JStr (lit ''s3''))]
        (Raised CancelledError) = (Inl CancelledError, r) \<and>
      dump_task r = CancelRequested \<and>
      effects r = pre @ [CancelTask, DumpState (state_path example_client) (JStr (lit ''s3''))] \<and>
      CancelTask \<notin> set pre \<and>
      next_batch (sync_client r) = JStr (lit ''s3'') \<and>
      files (sync_fs r) (state_path example_client) =
        Some (JsonText (JDict [(lit ''next_batch'', JStr (lit ''s3''))]))) \<and>
   store_path example_client \<notin> denied stored_fs \<and>
   store_path example_client \<notin> dom (files stored_fs) \<and>
   state_path example_client \<notin> denied stored_fs \<and>
   files stored_fs (state_path example_client) =
     Some (JsonText (JDict [(lit ''next_batch'', JStr (lit ''s1''))])) \<and>
   (\<exists>r pre.
      sync_forever example_client stored_fs [] Returned = (Inr (), r) \<and>
      dump_task r = CancelRequested \<and>
      effects r = pre @ [CancelTask, DumpState (state_path example_client) (JStr (lit ''s1''))] \<and>
      CancelTask \<notin> set pre \<and>
      next_batch (sync_client r) = JStr (lit ''s1'') \<and>
      files (sync_fs r) (state_path example_client) =
        Some (JsonText (JDict [(lit ''next_batch'', JStr (lit ''s1''))])))"
proof -
  have a1: "store_path example_client \<notin> denied empty_fs"
    and a2: "store_path example_client \<notin> dom (files empty_fs)"
    and a3: "state_path example_client \<notin> denied empty_fs"
    and a4: "files empty_fs (state_path example_client) = None"
    by (simp_all add: empty_fs_def)
  have a5: "files empty_fs (state_path example_client) = None \<and>
        next_batch example_client = next_batch example_client \<or>
        (\<exists>d. files empty_fs (state_path example_client) = Some (JsonText (JDict d)) \<and>
             map_of d (lit ''next_batch'') = Some (next_batch example_client))"
    using a4 by simp
  have b1: "store_path example_client \<notin> denied stored_fs"
    and b2: "store_path example_client \<notin> dom (files stored_fs)"
    and b3: "state_path example_client \<notin> denied stored_fs"
    and b4: "files stored_fs (state_path example_client) =
      Some (JsonText (JDict [(lit ''next_batch'', JStr (lit ''s1''))]))"
    by (simp_all add: stored_fs_def state_path_def joinpath_def example_client_def)
  have b5: "files stored_fs (state_path example_client) = None \<and>
        JStr (lit ''s1'') = next_batch example_client \<or>
        (\<exists>d. files stored_fs (state_path example_client) = Some (JsonText (JDict d)) \<and>
             map_of d (lit ''next_batch'') = Some (JStr (lit ''s1'')))"
    using b4 by simp
  have c1: "latest_cursor (next_batch example_client)
        [Synced (JStr (lit ''s2'')), PeriodElapsed, Synced (JStr (lit ''s3''))] =
        JStr (lit ''s3'')"
    and c2: "latest_cursor (JStr (lit ''s1'')) [] = JStr (lit ''s1'')"
    by (simp_all add: latest_cursor_def)
  show ?thesis
    using a1 a2 a3 a4 b1 b2 b3 b4
      sync_forever_final_dump [OF a1 a2 a3 a5,
        of "[Synced (JStr (lit ''s2'')), PeriodElapsed, Synced (JStr (lit ''s3''))]"
           "Raised CancelledError"]
      sync_forever_final_dump [OF b1 b2 b3 b5, of "[]" Returned]
    unfolding c1 c2 by simp
qed

section \<open>The OAuth web flow and the data model\<close>

lemma dict_get_dict_set: "dict_get (dict_set k v d) k = v"
  by (induction d) (auto simp: dict_get_def)

lemma first_by_token_merge:
  "first_by_token t (merge_account a db) = first_by_token t db"
  by (simp add: first_by_token_def merge_account_def)

lemma find_map_same:
  assumes "find P xs = Some u" and "\<And>x. P (f x) = P x"
  shows "find P (map f xs) = Some (f u)"
  using assms by (induction xs) (auto split: if_splits)

lemma find_merge_account:
  "find (\<lambda>x. email x = email a) (accounts (merge_account a db)) = Some a"
proof -
  have upd: "\<And>xs. email a \<in> set (map email xs) \<Longrightarrow>
      find (\<lambda>x. email x = email a) (map (\<lambda>x. if email x = email a then a else x) xs) = Some a"
  proof -
    fix xs show "email a \<in> set (map email xs) \<Longrightarrow>
      find (\<lambda>x. email x = email a) (map (\<lambda>x. if email x = email a then a else x) xs) = Some a"
      by (induction xs) auto
  qed
  have app: "\<And>xs. email a \<notin> set (map email xs) \<Longrightarrow>
      find (\<lambda>x. email x = email a) (xs @ [a]) = Some a"
  proof -
    fix xs show "email a \<notin> set (map email xs) \<Longrightarrow>
      find (\<lambda>x. email x = email a) (xs @ [a]) = Some a"
      by (induction xs) auto
  qed
  show ?thesis
    using upd [of "accounts db"] app [of "accounts db"]
    by (simp add: merge_account_def)
qed

lemma accounts_set_account [simp]: "accounts (set_account u a db) = accounts db"
  by (simp add: set_account_def)

lemma page_matrix_link_session:
  assumes "first_by_token (JStr t) db = Some u"
  shows "page_matrix_link t db session =
         (RedirectGoogle (lit ''page_oauth_authorize''),
          dict_set (lit ''matrix_token'') (JStr t) session)"
  using assms by (simp add: page_matrix_link_def)

text \<open>
  C4: the user opened \<open>/matrix/<token>/link\<close> with the token of an existing MatrixUser
  (which stored the token in the session), Google's token parses, the email is verified
  and matches the university pattern. Then \<open>page_oauth_authorize\<close> redirects to the profile
  page of that token, and the committed database holds an Account with the email, first
  name and last name Google reported, and the MatrixUser with that token has this email as
  its \<open>account_email\<close>, as the profile page then shows.
\<close>

theorem oauth_authorize_links_account:
  assumes "first_by_token (JStr t) db = Some u"
    and "t \<noteq> []"
    and "authorize_access_token oauth = Inr tok"
    and "subscript tok (lit ''userinfo'') = Inr userinfo"
    and "subscript userinfo (lit ''nonce'') = Inr nonce"
    and "parse_id_token oauth tok nonce = Inr google"
    and "email_verified google"
    and "re_match_unimore (google_email google)"
  shows "\<exists>db'.
           page_oauth_authorize oauth (snd (page_matrix_link t db session)) db =
             (RedirectProfile (JStr t), db') \<and>
           find (\<lambda>a. email a = google_email google) (accounts db') =
             Some \<lparr>email = google_email google, first_name = given_name google,
                   last_name = family_name google\<rparr> \<and>
           first_by_token (JStr t) db' =
             Some (u\<lparr>account_email := Some (google_email google)\<rparr>) \<and>
           page_matrix_profile t db' =
             RenderMatrix (u\<lparr>account_email := Some (google_email google)\<rparr>) t"
proof -
  let ?a = "\<lparr>email = google_email google, first_name = given_name google,
             last_name = family_name google\<rparr>"
  let ?pending = "merge_account ?a db"
  let ?db' = "set_account u ?a ?pending"
  let ?session = "snd (page_matrix_link t db session)"
  have tok_get: "dict_get ?session (lit ''matrix_token'') = JStr t"
    by (simp add: page_matrix_link_session [OF assms(1)] dict_get_dict_set)
  have found: "first_by_token (JStr t) ?pending = Some u"
    by (simp add: first_by_token_merge assms(1))
  have run: "page_oauth_authorize oauth ?session db = (RedirectProfile (JStr t), ?db')"
    unfolding page_oauth_authorize_def
    using assms(2-8) by (simp add: Let_def tok_get found)
  have acc: "find (\<lambda>a. email a = google_email google) (accounts ?db') = Some ?a"
    using find_merge_account [of ?a db] by simp
  have "find (\<lambda>x. JStr (token x) = JStr t)
          (map (\<lambda>x. if matrix_id x = matrix_id u
                     then x\<lparr>account_email := Some (email ?a)\<rparr> else x)
             (matrix_users ?pending)) =
        Some ((\<lambda>x. if matrix_id x = matrix_id u
                     then x\<lparr>account_email := Some (email ?a)\<rparr> else x) u)"
    by (rule find_map_same) (use found in \<open>simp_all add: first_by_token_def\<close>)
  then have usr: "first_by_token (JStr t) ?db' =
      Some (u\<lparr>account_email := Some (google_email google)\<rparr>)"
    by (simp add: first_by_token_def set_account_def)
  have prof: "page_matrix_profile t ?db' =
      RenderMatrix (u\<lparr>account_email := Some (google_email google)\<rparr>) t"
    by (simp add: page_matrix_profile_def usr)
  from run acc usr prof show ?thesis by blast
qed

lemma map_email_replace:
  "email a = e \<Longrightarrow> map (email \<circ> (\<lambda>x. if email x = e then a else x)) xs = map email xs"
  by (induction xs) auto

lemma emails_merge_account:
  "set (map email (accounts (merge_account a db))) = insert (email a) (set (map email (accounts db)))"
  by (auto simp: merge_account_def map_email_replace simp del: set_map)

lemma db_ok_merge_account:
  assumes "db_ok db"
  shows "db_ok (merge_account a db)"
proof -
  have d: "distinct (map email (accounts (merge_account a db)))"
    using assms by (auto simp: db_ok_def merge_account_def map_email_replace)
  have m: "matrix_users (merge_account a db) = matrix_users db"
    by (simp add: merge_account_def)
  have f: "list_all (\<lambda>u. case account_email u of None \<Rightarrow> True
               | Some e \<Rightarrow> e \<in> set (map email (accounts (merge_account a db))))
             (matrix_users db)"
    using assms unfolding db_ok_def emails_merge_account
    by (auto simp: list_all_iff split: option.splits)
  show ?thesis
    using assms d f by (simp add: db_ok_def m)
qed

lemma db_ok_set_account:
  assumes "db_ok db" and "email a \<in> set (map email (accounts db))"
  shows "db_ok (set_account u a db)"
proof -
  have ids: "map matrix_id (matrix_users (set_account u a db)) = map matrix_id (matrix_users db)"
    by (simp add: set_account_def comp_def if_distrib cong: if_cong)
  have fk: "list_all (\<lambda>x. case account_email x of None \<Rightarrow> True
               | Some e \<Rightarrow> e \<in> set (map email (accounts db)))
             (matrix_users (set_account u a db))"
    unfolding list_all_iff
  proof
    fix x assume "x \<in> set (matrix_users (set_account u a db))"
    then obtain y where y: "y \<in> set (matrix_users db)"
      and x: "x = (if matrix_id y = matrix_id u then y\<lparr>account_email := Some (email a)\<rparr> else y)"
      by (auto simp: set_account_def)
    from assms(1) y have "case account_email y of None \<Rightarrow> True
               | Some e \<Rightarrow> e \<in> set (map email (accounts db))"
      by (simp add: db_ok_def list_all_iff)
    with assms(2) x show "case account_email x of None \<Rightarrow> True
               | Some e \<Rightarrow> e \<in> set (map email (accounts db))"
      by (simp split: if_splits)
  qed
  show ?thesis
    unfolding db_ok_def ids accounts_set_account
    using assms(1) fk by (simp add: db_ok_def)
qed

lemma page_oauth_authorize_cases:
  "snd (page_oauth_authorize oauth session db) = db \<or>
   (\<exists>u a. snd (page_oauth_authorize oauth session db) = set_account u a (merge_account a db))"
  unfolding page_oauth_authorize_def
  by (auto simp: Let_def split: sum.splits exn.splits option.splits)

lemma filter_distinct_le_1:
  "distinct (map f xs) \<Longrightarrow> length (filter (\<lambda>a. e = Some (f a)) xs) \<le> 1"
  by (induction xs) (auto simp: filter_empty_conv)

lemma re_match_example: "re_match_unimore (lit ''123456@studenti.unimore.it'')"
  by code_simp

lemma re_match_gmail: "\<not> re_match_unimore (lit ''ada@gmail.com'')"
  by code_simp

text \<open>
  C5: the four failing runs of \<open>page_oauth_authorize\<close>. Missing query parameters and an
  OAuth error render the error page (with Flask's default status 200); an unverified email
  and an email that does not match the pattern render it with status 403. In each the
  database is returned unchanged. More generally, every run that does not end in the
  redirect to the profile page leaves the database unchanged.
\<close>

theorem oauth_authorize_errors:
  "(authorize_access_token oauth = Inl BadRequestKeyError \<longrightarrow>
      page_oauth_authorize oauth session db = (ErrorPage MissingQueryParameters 200, db)) \<and>
   (authorize_access_token oauth = Inl OAuthError \<longrightarrow>
      page_oauth_authorize oauth session db = (ErrorPage OAuthWentWrong 200, db)) \<and>
   (authorize_access_token oauth = Inr tok \<and>
    subscript tok (lit ''userinfo'') = Inr userinfo \<and>
    subscript userinfo (lit ''nonce'') = Inr nonce \<and>
    parse_id_token oauth tok nonce = Inr google \<and>
    \<not> email_verified google \<longrightarrow>
      page_oauth_authorize oauth session db = (ErrorPage EmailNotVerified 403, db)) \<and>
   (authorize_access_token oauth = Inr tok \<and>
    subscript tok (lit ''userinfo'') = Inr userinfo \<and>
    subscript userinfo (lit ''nonce'') = Inr nonce \<and>
    parse_id_token oauth tok nonce = Inr google \<and>
    email_verified google \<and> \<not> re_match_unimore (google_email google) \<longrightarrow>
      page_oauth_authorize oauth session db = (ErrorPage NotInOrganization 403, db)) \<and>
   ((\<forall>t. fst (page_oauth_authorize oauth session db) \<noteq> RedirectProfile t) \<longrightarrow>
      snd (page_oauth_authorize oauth session db) = db)"
  unfolding page_oauth_authorize_def
  by (auto simp: Let_def split: sum.splits exn.splits option.splits)

theorem oauth_authorize_errors_witness:
  "page_oauth_authorize (oauth_failing BadRequestKeyError) [] example_db =
     (ErrorPage MissingQueryParameters 200, example_db) \<and>
   page_oauth_authorize (oauth_failing OAuthError) [] example_db =
     (ErrorPage OAuthWentWrong 200, example_db) \<and>
   page_oauth_authorize (oauth_returning (example_google\<lparr>email_verified := False\<rparr>))
     [(lit ''matrix_token'', JStr (lit ''tok-ada''))] example_db =
     (ErrorPage EmailNotVerified 403, example_db) \<and>
   page_oauth_authorize (oauth_returning (example_google\<lparr>google_email := lit ''ada@gmail.com''\<rparr>))
     [(lit ''matrix_token'', JStr (lit ''tok-ada''))] example_db =
     (ErrorPage NotInOrganization 403, example_db)"
proof -
  let ?session = "[(lit ''matrix_token'', JStr (lit ''tok-ada''))]"
  let ?ui = "JDict [(lit ''nonce'', JStr (lit ''n0''))]"
  have a: "authorize_access_token (oauth_failing BadRequestKeyError) = Inl BadRequestKeyError"
    and b: "authorize_access_token (oauth_failing OAuthError) = Inl OAuthError"
    by (simp_all add: oauth_failing_def)
  have c: "authorize_access_token (oauth_returning (example_google\<lparr>email_verified := False\<rparr>)) =
        Inr example_token \<and>
      subscript example_token (lit ''userinfo'') = Inr ?ui \<and>
      subscript ?ui (lit ''nonce'') = Inr (JStr (lit ''n0'')) \<and>
      parse_id_token (oauth_returning (example_google\<lparr>email_verified := False\<rparr>))
        example_token (JStr (lit ''n0'')) = Inr (example_google\<lparr>email_verified := False\<rparr>) \<and>
      \<not> email_verified (example_google\<lparr>email_verified := False\<rparr>)"
    by (simp add: oauth_returning_def example_token_def)
  have d: "authorize_access_token
        (oauth_returning (example_google\<lparr>google_email := lit ''ada@gmail.com''\<rparr>)) =
        Inr example_token \<and>
      subscript example_token (lit ''userinfo'') = Inr ?ui \<and>
      subscript ?ui (lit ''nonce'') = Inr (JStr (lit ''n0'')) \<and>
      parse_id_token (oauth_returning (example_google\<lparr>google_email := lit ''ada@gmail.com''\<rparr>))
        example_token (JStr (lit ''n0'')) =
        Inr (example_google\<lparr>google_email := lit ''ada@gmail.com''\<rparr>) \<and>
      email_verified (example_google\<lparr>google_email := lit ''ada@gmail.com''\<rparr>) \<and>
      \<not> re_match_unimore (google_email (example_google\<lparr>google_email := lit ''ada@gmail.com''\<rparr>))"
    by (simp add: oauth_returning_def example_token_def example_google_def re_match_gmail)
  from a oauth_authorize_errors [of "oauth_failing BadRequestKeyError" "[]" example_db]
  have 1: "page_oauth_authorize (oauth_failing BadRequestKeyError) [] example_db =
     (ErrorPage MissingQueryParameters 200, example_db)"
    by blast
  from b oauth_authorize_errors [of "oauth_failing OAuthError" "[]" example_db]
  have 2: "page_oauth_authorize (oauth_failing OAuthError) [] example_db =
     (ErrorPage OAuthWentWrong 200, example_db)"
    by blast
  from c oauth_authorize_errors [of "oauth_returning (example_google\<lparr>email_verified := False\<rparr>)"
      ?session example_db example_token ?ui "JStr (lit ''n0'')"
      "example_google\<lparr>email_verified := False\<rparr>"]
  have 3: "page_oauth_authorize (oauth_returning (example_google\<lparr>email_verified := False\<rparr>))
     ?session example_db = (ErrorPage EmailNotVerified 403, example_db)"
    by blast
  from d oauth_authorize_errors
      [of "oauth_returning (example_google\<lparr>google_email := lit ''ada@gmail.com''\<rparr>)"
      ?session example_db example_token ?ui "JStr (lit ''n0'')"
      "example_google\<lparr>google_email := lit ''ada@gmail.com''\<rparr>"]
  have 4: "page_oauth_authorize
     (oauth_returning (example_google\<lparr>google_email := lit ''ada@gmail.com''\<rparr>))
     ?session example_db = (ErrorPage NotInOrganization 403, example_db)"
    by blast
  from 1 2 3 4 show ?thesis by blast
qed

theorem oauth_authorize_links_account_witness:
  "first_by_token (JStr (lit ''tok-ada'')) example_db = Some example_user \<and>
   lit ''tok-ada'' \<noteq> [] \<and>
   email_verified example_google \<and>
   re_match_unimore (google_email example_google) \<and>
   (\<exists>db'.
      page_oauth_authorize (oauth_returning example_google)
        (snd (page_matrix_link (lit ''tok-ada'') example_db [])) example_db =
        (RedirectProfile (JStr (lit ''tok-ada'')), db') \<and>
      find (\<lambda>a. email a = google_email example_google) (accounts db') =
        Some \<lparr>email = google_email example_google, first_name = given_name example_google,
              last_name = family_name example_google\<rparr> \<and>
      first_by_token (JStr (lit ''tok-ada'')) db' =
        Some (example_user\<lparr>account_email := Some (google_email example_google)\<rparr>) \<and>
      page_matrix_profile (lit ''tok-ada'') db' =
        RenderMatrix (example_user\<lparr>account_email := Some (google_email example_google)\<rparr>)
          (lit ''tok-ada''))"
proof -
  have h1: "first_by_token (JStr (lit ''tok-ada'')) example_db = Some example_user"
    by (simp add: first_by_token_def example_db_def example_user_def)
  have h2: "lit ''tok-ada'' \<noteq> []" by simp
  have h3: "authorize_access_token (oauth_returning example_google) = Inr example_token"
    by (simp add: oauth_returning_def)
  have h4: "subscript example_token (lit ''userinfo'') =
      Inr (JDict [(lit ''nonce'', JStr (lit ''n0''))])"
    by (simp add: example_token_def)
  have h5: "subscript (JDict [(lit ''nonce'', JStr (lit ''n0''))]) (lit ''nonce'') =
      Inr (JStr (lit ''n0''))"
    by simp
  have h6: "parse_id_token (oauth_returning example_google) example_token (JStr (lit ''n0'')) =
      Inr example_google"
    by (simp add: oauth_returning_def)
  have h7: "email_verified example_google"
    by (simp add: example_google_def)
  have h8: "re_match_unimore (google_email example_google)"
    by (simp add: example_google_def re_match_example)
  show ?thesis
    using h1 h2 h7 h8 oauth_authorize_links_account [OF h1 h2 h3 h4 h5 h6 h7 h8, of "[]"]
    by blast
qed

text \<open>
  C7: the handlers keep the invariants of the schema. From a database in which
  \<open>MatrixUser.id\<close> and \<open>Account.email\<close> are unique and every \<open>account_email\<close> is that of an
  Account, \<open>page_oauth_authorize\<close> (the only handler that writes) yields such a database
  again; a MatrixUser references at most one Account; a database whose MatrixUsers are all
  unlinked is valid, and so is one in which two MatrixUsers reference the same Account.
\<close>

theorem data_model_invariants:
  assumes "db_ok db"
  shows "distinct (map matrix_id (matrix_users (snd (page_oauth_authorize oauth session db)))) \<and>
         distinct (map email (accounts (snd (page_oauth_authorize oauth session db)))) \<and>
         db_ok (snd (page_oauth_authorize oauth session db)) \<and>
         (\<forall>u \<in> set (matrix_users db).
            length (filter (\<lambda>a. account_email u = Some (email a)) (accounts db)) \<le> 1) \<and>
         db_ok example_db \<and>
         list_all (\<lambda>u. account_email u = None) (matrix_users example_db) \<and>
         db_ok linked_db \<and>
         map account_email (matrix_users linked_db) =
           [Some (lit ''123456@studenti.unimore.it''), Some (lit ''123456@studenti.unimore.it'')]"
proof -
  let ?db' = "snd (page_oauth_authorize oauth session db)"
  have ok': "db_ok ?db'"
  proof -
    from page_oauth_authorize_cases [of oauth session db]
    consider "?db' = db" | u a where "?db' = set_account u a (merge_account a db)"
      by blast
    then show ?thesis
    proof cases
      case 1
      with assms show ?thesis by simp
    next
      case 2
      have "db_ok (set_account u a (merge_account a db))"
        by (rule db_ok_set_account [OF db_ok_merge_account [OF assms]])
           (simp add: emails_merge_account del: set_map)
      with 2 show ?thesis by simp
    qed
  qed
  have one: "\<forall>u \<in> set (matrix_users db).
      length (filter (\<lambda>a. account_email u = Some (email a)) (accounts db)) \<le> 1"
  proof
    fix u assume "u \<in> set (matrix_users db)"
    from assms have "distinct (map email (accounts db))"
      by (simp add: db_ok_def)
    then show "length (filter (\<lambda>a. account_email u = Some (email a)) (accounts db)) \<le> 1"
      by (rule filter_distinct_le_1)
  qed
  have ex1: "db_ok example_db"
    and ex2: "list_all (\<lambda>u. account_email u = None) (matrix_users example_db)"
    by (simp_all add: db_ok_def example_db_def example_user_def)
  have ex3: "db_ok linked_db"
    and ex4: "map account_email (matrix_users linked_db) =
      [Some (lit ''123456@studenti.unimore.it''), Some (lit ''123456@studenti.unimore.it'')]"
    by (simp_all add: db_ok_def linked_db_def)
  from ok' one ex1 ex2 ex3 ex4 show ?thesis
    by (simp add: db_ok_def)
qed

theorem data_model_invariants_witness:
  "db_ok example_db \<and>
   snd (page_oauth_authorize (oauth_returning example_google)
          [(lit ''matrix_token'', JStr (lit ''tok-phone''))]
          (snd (page_oauth_authorize (oauth_returning example_google)
                  [(lit ''matrix_token'', JStr (lit ''tok-ada''))] example_db))) = linked_db \<and>
   db_ok (snd (page_oauth_authorize (oauth_returning example_google)
          [(lit ''matrix_token'', JStr (lit ''tok-ada''))] example_db)) \<and>
   distinct (map matrix_id (matrix_users (snd (page_oauth_authorize
          (oauth_returning example_google)
          [(lit ''matrix_token'', JStr (lit ''tok-ada''))] example_db)))) \<and>
   distinct (map email (accounts (snd (page_oauth_authorize
          (oauth_returning example_google)
          [(lit ''matrix_token'', JStr (lit ''tok-ada''))] example_db))))"
proof -
  have ok: "db_ok example_db"
    by (simp add: db_ok_def example_db_def example_user_def)
  have m: "re_match_unimore (lit ''123456@studenti.unimore.it'')"
    by (rule re_match_example)
  have run: "snd (page_oauth_authorize (oauth_returning example_google)
          [(lit ''matrix_token'', JStr (lit ''tok-phone''))]
          (snd (page_oauth_authorize (oauth_returning example_google)
                  [(lit ''matrix_token'', JStr (lit ''tok-ada''))] example_db))) = linked_db"
    using m
    by (simp add: page_oauth_authorize_def oauth_returning_def example_token_def
        example_google_def example_db_def example_user_def linked_db_def merge_account_def
        set_account_def first_by_token_def dict_get_def Let_def)
  show ?thesis
    using ok run
      data_model_invariants [OF ok, of "oauth_returning example_google"
        "[(lit ''matrix_token'', JStr (lit ''tok-ada''))]"]
    by blast
qed

end
